theory Spec2Isabelle
  imports Main
begin

section \<open>The Knative serving client facade (pkg/serving/v1alpha1/client.go)\<close>

text \<open>
  A shallow embedding of the client facade. A pointer that the API client returns is
  an address in a store of objects (\<open>heap\<close>), so that what the facade changes and
  what it copies can be told apart; the \<open>service\<close> argument of \<open>getBaseRevision\<close>,
  which is only read, is passed by value. Pointer arguments, interface values and
  function values are taken to be non-nil, as the callers of the facade pass them.
  An \<open>error\<close> return is the left summand of \<open>error + 'a\<close>; a Go function that
  returns only \<open>error\<close> gives \<open>error option\<close> (\<open>None\<close> is \<open>nil\<close>).
\<close>

subsection \<open>API objects\<close>

record TypeMeta =
  Kind :: string
  APIVersion :: string

record ObjectMeta =
  Name :: string
  Namespace :: string

record ListMeta =
  ResourceVersion :: string
  Continue :: string

datatype ConditionStatus = ConditionTrue | ConditionFalse | ConditionUnknown

record Condition =
  Condition_Type :: string
  Condition_Status :: ConditionStatus
  Condition_Reason :: string
  Condition_Message :: string

type_synonym Conditions = "Condition list"

record Container =
  Container_Name :: string
  Image :: string

record RevisionSpec =
  DeprecatedContainer :: "Container option"
  Containers :: "Container list"

record RevisionTemplateSpec =
  Template_ObjectMeta :: ObjectMeta
  Template_Spec :: RevisionSpec

record ServiceSpec =
  Template :: "RevisionTemplateSpec option"

record ServiceStatus =
  Service_Conditions :: "Condition list"
  LatestReadyRevisionName :: string
  LatestCreatedRevisionName :: string

record Service =
  Service_TypeMeta :: TypeMeta
  Service_ObjectMeta :: ObjectMeta
  Service_Spec :: ServiceSpec
  Service_Status :: ServiceStatus

record Revision =
  Revision_TypeMeta :: TypeMeta
  Revision_ObjectMeta :: ObjectMeta
  Revision_Spec :: RevisionSpec
  Revision_Conditions :: "Condition list"

record Route =
  Route_TypeMeta :: TypeMeta
  Route_ObjectMeta :: ObjectMeta
  Route_Conditions :: "Condition list"

record Configuration =
  Configuration_TypeMeta :: TypeMeta
  Configuration_ObjectMeta :: ObjectMeta
  Configuration_Template :: "RevisionTemplateSpec option"

record ServiceList =
  ServiceList_TypeMeta :: TypeMeta
  ServiceList_ListMeta :: ListMeta
  ServiceList_Items :: "Service list"

record RevisionList =
  RevisionList_TypeMeta :: TypeMeta
  RevisionList_ListMeta :: ListMeta
  RevisionList_Items :: "Revision list"

record RouteList =
  RouteList_TypeMeta :: TypeMeta
  RouteList_ListMeta :: ListMeta
  RouteList_Items :: "Route list"

text \<open>
  A \<open>runtime.Object\<close> is an interface value: the dynamic type (the constructor) and
  the object the pointer inside it refers to.
\<close>

datatype runtime_Object =
    ServiceObj Service
  | RevisionObj Revision
  | RouteObj Route
  | ConfigurationObj Configuration
  | ServiceListObj ServiceList
  | RevisionListObj RevisionList
  | RouteListObj RouteList

subsection \<open>Errors\<close>

datatype StatusReason =
    StatusReasonNotFound
  | StatusReasonAlreadyExists
  | StatusReasonConflict
  | StatusReasonInternalError

text \<open>
  The error values the facade sees or makes: an API status error (reason, resource,
  name), the package's own \<open>NoBaseRevisionError\<close> (its message), the result of
  \<open>fmt.Errorf\<close> (the format and its one argument), any other error (its message),
  and a run-time panic.
\<close>

datatype error =
    StatusError StatusReason string string
  | NoBaseRevisionError string
  | Errorf string runtime_Object
  | ErrorString string
  | RuntimePanic string

definition NewNotFound :: "string \<Rightarrow> string \<Rightarrow> error" where
  "NewNotFound resource name = StatusError StatusReasonNotFound resource name"

fun IsNotFound :: "error \<Rightarrow> bool" where
  "IsNotFound (StatusError reason resource name) = (reason = StatusReasonNotFound)"
| "IsNotFound (NoBaseRevisionError msg) = False"
| "IsNotFound (Errorf fmt obj) = False"
| "IsNotFound (ErrorString msg) = False"
| "IsNotFound (RuntimePanic msg) = False"

subsection \<open>The condition extractor of a service\<close>

definition serviceConditionExtractor :: "runtime_Object \<Rightarrow> error + Conditions" where
  "serviceConditionExtractor obj =
     (case obj of
        ServiceObj service \<Rightarrow> Inr (Service_Conditions (Service_Status service))
      | _ \<Rightarrow> Inl (Errorf ''%v is not a service'' obj))"

text \<open>The type assertion \<open>obj.(*v1alpha1.Service)\<close>.\<close>

fun isService :: "runtime_Object \<Rightarrow> bool" where
  "isService (ServiceObj service) = True"
| "isService obj = False"

subsection \<open>Imported functions that are not among the sources\<close>

text \<open>
  The facade calls functions of other packages (\<open>kn_errors.GetError\<close>,
  \<open>util.UpdateGroupVersionKindWithScheme\<close>, the template and container accessors of
  package \<open>serving\<close>, \<open>String\<close> of the selector sets). They are parameters of the
  model: every result below holds whatever these functions compute.
  \<open>util_UpdateGroupVersionKindWithScheme\<close> is given the object a pointer refers to and
  returns its error and the object as it leaves it.
\<close>

type_synonym Set = "string \<rightharpoonup> string"

record imported =
  kn_errors_GetError :: "error \<Rightarrow> error"
  util_UpdateGroupVersionKindWithScheme :: "runtime_Object \<Rightarrow> error option \<times> runtime_Object"
  serving_RevisionTemplateOfService :: "Service \<Rightarrow> error + RevisionTemplateSpec"
  serving_ContainerOfRevisionSpec :: "RevisionSpec \<Rightarrow> error + Container"
  serving_ContainerOfRevisionTemplate :: "RevisionTemplateSpec \<Rightarrow> error + Container"
  labels_Set_String :: "Set \<Rightarrow> string"
  fields_Set_String :: "Set \<Rightarrow> string"

definition ServiceLabelKey :: string where
  "ServiceLabelKey = ''serving.knative.dev/service''"

subsection \<open>List options\<close>

record ListOptions =
  LabelSelector :: string
  FieldSelector :: string

record listConfigCollector =
  Labels :: Set
  Fields :: Set

text \<open>
  A \<open>ListConfig\<close> is a function that updates the collector it is given a pointer to.
\<close>

type_synonym ListConfig = "listConfigCollector \<Rightarrow> listConfigCollector"

text \<open>The loop \<open>for _, f := range opts { f(&listConfig) }\<close>.\<close>

fun applyConfigs :: "ListConfig list \<Rightarrow> listConfigCollector \<Rightarrow> listConfigCollector" where
  "applyConfigs [] listConfig = listConfig"
| "applyConfigs (f # opts) listConfig = applyConfigs opts (f listConfig)"

definition toListOptions :: "imported \<Rightarrow> ListConfig list \<Rightarrow> ListOptions" where
  "toListOptions D opts =
     (let listConfig = applyConfigs opts \<lparr>Labels = Map.empty, Fields = Map.empty\<rparr>;
          options = \<lparr>LabelSelector = '''', FieldSelector = ''''\<rparr>;
          options = (if Fields listConfig \<noteq> Map.empty
                     then options\<lparr>FieldSelector := fields_Set_String D (Fields listConfig)\<rparr>
                     else options);
          options = (if Labels listConfig \<noteq> Map.empty
                     then options\<lparr>LabelSelector := labels_Set_String D (Labels listConfig)\<rparr>
                     else options)
      in options)"

definition WithName :: "string \<Rightarrow> ListConfig" where
  "WithName name = (\<lambda>lo. lo\<lparr>Fields := (Fields lo)(''metadata.name'' \<mapsto> name)\<rparr>)"

definition WithService :: "string \<Rightarrow> ListConfig" where
  "WithService service = (\<lambda>lo. lo\<lparr>Labels := (Labels lo)(ServiceLabelKey \<mapsto> service)\<rparr>)"

text \<open>The two constructors are the only \<open>ListConfig\<close> values the package makes.\<close>

definition isListConfig :: "ListConfig \<Rightarrow> bool" where
  "isListConfig f = ((\<exists>name. f = WithName name) \<or> (\<exists>service. f = WithService service))"

subsection \<open>The state: the cluster behind the API client, and the objects it hands out\<close>

text \<open>
  A call of the API client may read and change the cluster (\<open>cluster\<close>, of any type)
  and returns a pointer to an object: an index into \<open>heap\<close>. A new object is put at
  the end, so the objects already there keep their addresses.
\<close>

record 'c state =
  cluster :: 'c
  heap :: "runtime_Object list"

definition alloc :: "runtime_Object \<Rightarrow> 'c state \<Rightarrow> nat \<times> 'c state" where
  "alloc obj s = (length (heap s), s\<lparr>heap := heap s @ [obj]\<rparr>)"

definition load :: "nat \<Rightarrow> 'c state \<Rightarrow> runtime_Object option" where
  "load p s = (if p < length (heap s) then Some (heap s ! p) else None)"

definition store :: "nat \<Rightarrow> runtime_Object \<Rightarrow> 'c state \<Rightarrow> 'c state" where
  "store p obj s = s\<lparr>heap := (heap s)[p := obj]\<rparr>"

definition nilPointerDereference :: error where
  "nilPointerDereference = RuntimePanic ''invalid memory address or nil pointer dereference''"

definition indexOutOfRange :: error where
  "indexOutOfRange = RuntimePanic ''index out of range''"

text \<open>
  The generated client, \<open>client_v1alpha1.ServingV1alpha1Interface\<close>: the calls the
  modelled functions make, each with the namespace as its first argument.
  \<open>'i\<close> is the type of a \<open>watch.Interface\<close>.
\<close>

record ('c, 'i) ServingV1alpha1Interface =
  Services_List :: "string \<Rightarrow> ListOptions \<Rightarrow> 'c state \<Rightarrow> (error + nat) \<times> 'c state"
  Services_Watch :: "string \<Rightarrow> ListOptions \<Rightarrow> 'c state \<Rightarrow> (error + 'i) \<times> 'c state"
  Revisions_Get :: "string \<Rightarrow> string \<Rightarrow> 'c state \<Rightarrow> (error + nat) \<times> 'c state"
  Revisions_List :: "string \<Rightarrow> ListOptions \<Rightarrow> 'c state \<Rightarrow> (error + nat) \<times> 'c state"
  Routes_List :: "string \<Rightarrow> ListOptions \<Rightarrow> 'c state \<Rightarrow> (error + nat) \<times> 'c state"

record ('c, 'i) knServingClient =
  client :: "('c, 'i) ServingV1alpha1Interface"
  namespace :: string

subsection \<open>Updating the group, version and kind of an object\<close>

definition updateServingGvk :: "imported \<Rightarrow> nat \<Rightarrow> 'c state \<Rightarrow> error option \<times> 'c state" where
  "updateServingGvk D obj s =
     (case load obj s of
        None \<Rightarrow> (Some nilPointerDereference, s)
      | Some v \<Rightarrow>
          (case util_UpdateGroupVersionKindWithScheme D v of
             (err, v') \<Rightarrow> (err, store obj v' s)))"

subsection \<open>Revisions\<close>

text \<open>
  The method \<open>GetRevision\<close> of \<open>knServingClient\<close>; the plain name is the method of
  the interface, below.
\<close>

definition GetRevision_impl ::
  "imported \<Rightarrow> ('c, 'i) knServingClient \<Rightarrow> string \<Rightarrow> 'c state \<Rightarrow> (error + nat) \<times> 'c state" where
  "GetRevision_impl D cl name s =
     (case Revisions_Get (client cl) (namespace cl) name s of
        (Inl err, s1) \<Rightarrow> (Inl (kn_errors_GetError D err), s1)
      | (Inr revision, s1) \<Rightarrow>
          (case updateServingGvk D revision s1 of
             (Some err, s2) \<Rightarrow> (Inl err, s2)
           | (None, s2) \<Rightarrow> (Inr revision, s2)))"

definition noBaseRevisionError :: error where
  "noBaseRevisionError = NoBaseRevisionError ''base revision not found''"

text \<open>
  The interface \<open>KnServingClient\<close>, as far as \<open>getBaseRevision\<close> calls it.
\<close>

record 'c KnServingClient =
  GetRevision :: "string \<Rightarrow> 'c state \<Rightarrow> (error + nat) \<times> 'c state"

text \<open>
  \<open>service\<close> is read only and passed by value; \<open>latestCreated\<close> is the pointer the
  client returned, and \<open>latestCreated.Spec\<close> reads the store.
\<close>

definition getBaseRevision ::
  "imported \<Rightarrow> 'c KnServingClient \<Rightarrow> Service \<Rightarrow> 'c state \<Rightarrow> (error + nat) \<times> 'c state" where
  "getBaseRevision D cl service s =
     (case serving_RevisionTemplateOfService D service of
        Inl err \<Rightarrow> (Inl err, s)
      | Inr template \<Rightarrow>
          if Name (Template_ObjectMeta template) \<noteq> ''''
          then GetRevision cl (Name (Template_ObjectMeta template)) s
          else if LatestCreatedRevisionName (Service_Status service) \<noteq> ''''
          then
            (case GetRevision cl (LatestCreatedRevisionName (Service_Status service)) s of
               (Inl err, s1) \<Rightarrow> (Inl err, s1)
             | (Inr latestCreated, s1) \<Rightarrow>
                 (case load latestCreated s1 of
                    Some (RevisionObj revision) \<Rightarrow>
                      (case serving_ContainerOfRevisionSpec D (Revision_Spec revision) of
                         Inl err \<Rightarrow> (Inl err, s1)
                       | Inr latestContainer \<Rightarrow>
                           (case serving_ContainerOfRevisionTemplate D template of
                              Inl err \<Rightarrow> (Inl err, s1)
                            | Inr container \<Rightarrow>
                                if Image latestContainer \<noteq> Image container
                                then (Inl noBaseRevisionError, s1)
                                else (Inr latestCreated, s1)))
                  | _ \<Rightarrow> (Inl nilPointerDereference, s1)))
          else (Inl noBaseRevisionError, s))"

definition asKnServingClient :: "imported \<Rightarrow> ('c, 'i) knServingClient \<Rightarrow> 'c KnServingClient" where
  "asKnServingClient D cl = \<lparr>GetRevision = GetRevision_impl D cl\<rparr>"

definition GetBaseRevision ::
  "imported \<Rightarrow> ('c, 'i) knServingClient \<Rightarrow> Service \<Rightarrow> 'c state \<Rightarrow> (error + nat) \<times> 'c state" where
  "GetBaseRevision D cl service s = getBaseRevision D (asKnServingClient D cl) service s"

subsection \<open>Waiting for a service\<close>

text \<open>
  Package \<open>wait\<close> is not among the sources. Its constructor \<open>NewWaitForReady\<close> and
  the method \<open>Wait\<close> of the waiter it returns are parameters; \<open>'wt\<close> is the type of
  the waiter. A \<open>time.Duration\<close> is passed on as it is, so it is an integer here.
\<close>

type_synonym ('c, 'i) WatchFunc = "ListOptions \<Rightarrow> 'c state \<Rightarrow> (error + 'i) \<times> 'c state"

type_synonym ConditionsExtractor = "runtime_Object \<Rightarrow> error + Conditions"

record ('c, 'i, 'wt) wait_pkg =
  wait_NewWaitForReady :: "string \<Rightarrow> ('c, 'i) WatchFunc \<Rightarrow> ConditionsExtractor \<Rightarrow> 'wt"
  WaitForReady_Wait :: "'wt \<Rightarrow> string \<Rightarrow> int \<Rightarrow> 'c state \<Rightarrow> error option \<times> 'c state"

definition newServiceWaitForReady :: "('c, 'i, 'wt) wait_pkg \<Rightarrow> ('c, 'i) WatchFunc \<Rightarrow> 'wt" where
  "newServiceWaitForReady W watch =
     wait_NewWaitForReady W ''service'' watch serviceConditionExtractor"

definition WaitForService ::
  "('c, 'i, 'wt) wait_pkg \<Rightarrow> ('c, 'i) knServingClient \<Rightarrow> string \<Rightarrow> int \<Rightarrow> 'c state
     \<Rightarrow> error option \<times> 'c state" where
  "WaitForService W cl name timeout s =
     (let waitForReady = newServiceWaitForReady W (Services_Watch (client cl) (namespace cl))
      in WaitForReady_Wait W waitForReady name timeout s)"

subsection \<open>Lists of services, revisions and routes\<close>

text \<open>
  Reading an object of a given type through a pointer. Where the source would
  dereference an address that holds no object of the expected type, the model stops
  with a panic value.
\<close>

definition load_Service :: "nat \<Rightarrow> 'c state \<Rightarrow> Service option" where
  "load_Service p s = (case load p s of Some (ServiceObj x) \<Rightarrow> Some x | _ \<Rightarrow> None)"

definition load_Revision :: "nat \<Rightarrow> 'c state \<Rightarrow> Revision option" where
  "load_Revision p s = (case load p s of Some (RevisionObj x) \<Rightarrow> Some x | _ \<Rightarrow> None)"

definition load_Route :: "nat \<Rightarrow> 'c state \<Rightarrow> Route option" where
  "load_Route p s = (case load p s of Some (RouteObj x) \<Rightarrow> Some x | _ \<Rightarrow> None)"

definition load_ServiceList :: "nat \<Rightarrow> 'c state \<Rightarrow> ServiceList option" where
  "load_ServiceList p s = (case load p s of Some (ServiceListObj x) \<Rightarrow> Some x | _ \<Rightarrow> None)"

definition load_RevisionList :: "nat \<Rightarrow> 'c state \<Rightarrow> RevisionList option" where
  "load_RevisionList p s = (case load p s of Some (RevisionListObj x) \<Rightarrow> Some x | _ \<Rightarrow> None)"

definition load_RouteList :: "nat \<Rightarrow> 'c state \<Rightarrow> RouteList option" where
  "load_RouteList p s = (case load p s of Some (RouteListObj x) \<Rightarrow> Some x | _ \<Rightarrow> None)"

text \<open>The zero values that \<open>make\<close> fills a new slice with.\<close>

definition zero_TypeMeta :: TypeMeta where
  "zero_TypeMeta = \<lparr>Kind = '''', APIVersion = ''''\<rparr>"

definition zero_ObjectMeta :: ObjectMeta where
  "zero_ObjectMeta = \<lparr>Name = '''', Namespace = ''''\<rparr>"

definition zero_RevisionSpec :: RevisionSpec where
  "zero_RevisionSpec = \<lparr>DeprecatedContainer = None, Containers = []\<rparr>"

definition zero_Service :: Service where
  "zero_Service =
     \<lparr>Service_TypeMeta = zero_TypeMeta, Service_ObjectMeta = zero_ObjectMeta,
      Service_Spec = \<lparr>Template = None\<rparr>,
      Service_Status = \<lparr>Service_Conditions = [], LatestReadyRevisionName = '''',
                        LatestCreatedRevisionName = ''''\<rparr>\<rparr>"

definition zero_Revision :: Revision where
  "zero_Revision =
     \<lparr>Revision_TypeMeta = zero_TypeMeta, Revision_ObjectMeta = zero_ObjectMeta,
      Revision_Spec = zero_RevisionSpec, Revision_Conditions = []\<rparr>"

definition zero_Route :: Route where
  "zero_Route =
     \<lparr>Route_TypeMeta = zero_TypeMeta, Route_ObjectMeta = zero_ObjectMeta, Route_Conditions = []\<rparr>"

text \<open>
  \<open>DeepCopy\<close> of an object makes a new object with the same contents; the records
  hold no pointers, so a copy shares nothing with its original.
\<close>

definition DeepCopy_ServiceList :: "nat \<Rightarrow> 'c state \<Rightarrow> (error + nat) \<times> 'c state" where
  "DeepCopy_ServiceList p s =
     (case load_ServiceList p s of
        None \<Rightarrow> (Inl nilPointerDereference, s)
      | Some x \<Rightarrow> (case alloc (ServiceListObj x) s of (q, s1) \<Rightarrow> (Inr q, s1)))"

definition DeepCopy_RevisionList :: "nat \<Rightarrow> 'c state \<Rightarrow> (error + nat) \<times> 'c state" where
  "DeepCopy_RevisionList p s =
     (case load_RevisionList p s of
        None \<Rightarrow> (Inl nilPointerDereference, s)
      | Some x \<Rightarrow> (case alloc (RevisionListObj x) s of (q, s1) \<Rightarrow> (Inr q, s1)))"

definition DeepCopy_RouteList :: "nat \<Rightarrow> 'c state \<Rightarrow> (error + nat) \<times> 'c state" where
  "DeepCopy_RouteList p s =
     (case load_RouteList p s of
        None \<Rightarrow> (Inl nilPointerDereference, s)
      | Some x \<Rightarrow> (case alloc (RouteListObj x) s of (q, s1) \<Rightarrow> (Inr q, s1)))"

text \<open>
  The loop of \<open>ListServices\<close> over the indices of \<open>serviceList.Items\<close>: the item is
  copied, the copy is updated, and its value is stored in \<open>serviceListNew.Items[idx]\<close>.
\<close>

fun ListServices_items :: "imported \<Rightarrow> nat \<Rightarrow> nat \<Rightarrow> nat list \<Rightarrow> 'c state \<Rightarrow> error option \<times> 'c state" where
  "ListServices_items D serviceList serviceListNew [] s = (None, s)"
| "ListServices_items D serviceList serviceListNew (idx # rest) s =
     (case load_ServiceList serviceList s of
        None \<Rightarrow> (Some nilPointerDereference, s)
      | Some l \<Rightarrow>
          if length (ServiceList_Items l) \<le> idx then (Some indexOutOfRange, s)
          else
            (case alloc (ServiceObj (ServiceList_Items l ! idx)) s of
               (serviceClone, s1) \<Rightarrow>
                 (case updateServingGvk D serviceClone s1 of
                    (Some err, s2) \<Rightarrow> (Some err, s2)
                  | (None, s2) \<Rightarrow>
                      (case load_Service serviceClone s2 of
                         None \<Rightarrow> (Some nilPointerDereference, s2)
                       | Some clone \<Rightarrow>
                           (case load_ServiceList serviceListNew s2 of
                              None \<Rightarrow> (Some nilPointerDereference, s2)
                            | Some new \<Rightarrow>
                                if length (ServiceList_Items new) \<le> idx then (Some indexOutOfRange, s2)
                                else ListServices_items D serviceList serviceListNew rest
                                       (store serviceListNew
                                          (ServiceListObj
                                             (new\<lparr>ServiceList_Items := (ServiceList_Items new)[idx := clone]\<rparr>))
                                          s2))))))"

definition ListServices ::
  "imported \<Rightarrow> ('c, 'i) knServingClient \<Rightarrow> ListConfig list \<Rightarrow> 'c state \<Rightarrow> (error + nat) \<times> 'c state" where
  "ListServices D cl config s =
     (case Services_List (client cl) (namespace cl) (toListOptions D config) s of
        (Inl err, s1) \<Rightarrow> (Inl (kn_errors_GetError D err), s1)
      | (Inr serviceList, s1) \<Rightarrow>
          (case DeepCopy_ServiceList serviceList s1 of
             (Inl err, s2) \<Rightarrow> (Inl err, s2)
           | (Inr serviceListNew, s2) \<Rightarrow>
               (case updateServingGvk D serviceListNew s2 of
                  (Some err, s3) \<Rightarrow> (Inl err, s3)
                | (None, s3) \<Rightarrow>
                    (case load_ServiceList serviceList s3 of
                       None \<Rightarrow> (Inl nilPointerDereference, s3)
                     | Some l \<Rightarrow>
                         (case load_ServiceList serviceListNew s3 of
                            None \<Rightarrow> (Inl nilPointerDereference, s3)
                          | Some new \<Rightarrow>
                              (case ListServices_items D serviceList serviceListNew
                                      [0..<length (ServiceList_Items l)]
                                      (store serviceListNew
                                         (ServiceListObj
                                            (new\<lparr>ServiceList_Items :=
                                                    replicate (length (ServiceList_Items l)) zero_Service\<rparr>))
                                         s3) of
                                 (Some err, s4) \<Rightarrow> (Inl err, s4)
                               | (None, s4) \<Rightarrow> (Inr serviceListNew, s4)))))))"

fun updateServingGvkForRevisionList_items ::
  "imported \<Rightarrow> nat \<Rightarrow> nat \<Rightarrow> nat list \<Rightarrow> 'c state \<Rightarrow> error option \<times> 'c state" where
  "updateServingGvkForRevisionList_items D revisionList revisionListNew [] s = (None, s)"
| "updateServingGvkForRevisionList_items D revisionList revisionListNew (idx # rest) s =
     (case load_RevisionList revisionList s of
        None \<Rightarrow> (Some nilPointerDereference, s)
      | Some l \<Rightarrow>
          if length (RevisionList_Items l) \<le> idx then (Some indexOutOfRange, s)
          else
            (case alloc (RevisionObj (RevisionList_Items l ! idx)) s of
               (revision, s1) \<Rightarrow>
                 (case updateServingGvk D revision s1 of
                    (Some err, s2) \<Rightarrow> (Some err, s2)
                  | (None, s2) \<Rightarrow>
                      (case load_Revision revision s2 of
                         None \<Rightarrow> (Some nilPointerDereference, s2)
                       | Some clone \<Rightarrow>
                           (case load_RevisionList revisionListNew s2 of
                              None \<Rightarrow> (Some nilPointerDereference, s2)
                            | Some new \<Rightarrow>
                                if length (RevisionList_Items new) \<le> idx then (Some indexOutOfRange, s2)
                                else updateServingGvkForRevisionList_items D revisionList revisionListNew rest
                                       (store revisionListNew
                                          (RevisionListObj
                                             (new\<lparr>RevisionList_Items := (RevisionList_Items new)[idx := clone]\<rparr>))
                                          s2))))))"

definition updateServingGvkForRevisionList ::
  "imported \<Rightarrow> nat \<Rightarrow> 'c state \<Rightarrow> (error + nat) \<times> 'c state" where
  "updateServingGvkForRevisionList D revisionList s =
     (case DeepCopy_RevisionList revisionList s of
        (Inl err, s2) \<Rightarrow> (Inl err, s2)
      | (Inr revisionListNew, s2) \<Rightarrow>
          (case updateServingGvk D revisionListNew s2 of
             (Some err, s3) \<Rightarrow> (Inl err, s3)
           | (None, s3) \<Rightarrow>
               (case load_RevisionList revisionList s3 of
                  None \<Rightarrow> (Inl nilPointerDereference, s3)
                | Some l \<Rightarrow>
                    (case load_RevisionList revisionListNew s3 of
                       None \<Rightarrow> (Inl nilPointerDereference, s3)
                     | Some new \<Rightarrow>
                         (case updateServingGvkForRevisionList_items D revisionList revisionListNew
                                 [0..<length (RevisionList_Items l)]
                                 (store revisionListNew
                                    (RevisionListObj
                                       (new\<lparr>RevisionList_Items :=
                                               replicate (length (RevisionList_Items l)) zero_Revision\<rparr>))
                                    s3) of
                            (Some err, s4) \<Rightarrow> (Inl err, s4)
                          | (None, s4) \<Rightarrow> (Inr revisionListNew, s4))))))"

definition ListRevisions ::
  "imported \<Rightarrow> ('c, 'i) knServingClient \<Rightarrow> ListConfig list \<Rightarrow> 'c state \<Rightarrow> (error + nat) \<times> 'c state" where
  "ListRevisions D cl config s =
     (case Revisions_List (client cl) (namespace cl) (toListOptions D config) s of
        (Inl err, s1) \<Rightarrow> (Inl (kn_errors_GetError D err), s1)
      | (Inr revisionList, s1) \<Rightarrow> updateServingGvkForRevisionList D revisionList s1)"

fun updateServingGvkForRouteList_items ::
  "imported \<Rightarrow> nat \<Rightarrow> nat \<Rightarrow> nat list \<Rightarrow> 'c state \<Rightarrow> error option \<times> 'c state" where
  "updateServingGvkForRouteList_items D routeList routeListNew [] s = (None, s)"
| "updateServingGvkForRouteList_items D routeList routeListNew (idx # rest) s =
     (case load_RouteList routeList s of
        None \<Rightarrow> (Some nilPointerDereference, s)
      | Some l \<Rightarrow>
          if length (RouteList_Items l) \<le> idx then (Some indexOutOfRange, s)
          else
            (case alloc (RouteObj (RouteList_Items l ! idx)) s of
               (revision, s1) \<Rightarrow>
                 (case updateServingGvk D revision s1 of
                    (Some err, s2) \<Rightarrow> (Some err, s2)
                  | (None, s2) \<Rightarrow>
                      (case load_Route revision s2 of
                         None \<Rightarrow> (Some nilPointerDereference, s2)
                       | Some clone \<Rightarrow>
                           (case load_RouteList routeListNew s2 of
                              None \<Rightarrow> (Some nilPointerDereference, s2)
                            | Some new \<Rightarrow>
                                if length (RouteList_Items new) \<le> idx then (Some indexOutOfRange, s2)
                                else updateServingGvkForRouteList_items D routeList routeListNew rest
                                       (store routeListNew
                                          (RouteListObj
                                             (new\<lparr>RouteList_Items := (RouteList_Items new)[idx := clone]\<rparr>))
                                          s2))))))"

definition updateServingGvkForRouteList ::
  "imported \<Rightarrow> nat \<Rightarrow> 'c state \<Rightarrow> (error + nat) \<times> 'c state" where
  "updateServingGvkForRouteList D routeList s =
     (case DeepCopy_RouteList routeList s of
        (Inl err, s2) \<Rightarrow> (Inl err, s2)
      | (Inr routeListNew, s2) \<Rightarrow>
          (case updateServingGvk D routeListNew s2 of
             (Some err, s3) \<Rightarrow> (Inl err, s3)
           | (None, s3) \<Rightarrow>
               (case load_RouteList routeList s3 of
                  None \<Rightarrow> (Inl nilPointerDereference, s3)
                | Some l \<Rightarrow>
                    (case load_RouteList routeListNew s3 of
                       None \<Rightarrow> (Inl nilPointerDereference, s3)
                     | Some new \<Rightarrow>
                         (case updateServingGvkForRouteList_items D routeList routeListNew
                                 [0..<length (RouteList_Items l)]
                                 (store routeListNew
                                    (RouteListObj
                                       (new\<lparr>RouteList_Items :=
                                               replicate (length (RouteList_Items l)) zero_Route\<rparr>))
                                    s3) of
                            (Some err, s4) \<Rightarrow> (Inl err, s4)
                          | (None, s4) \<Rightarrow> (Inr routeListNew, s4))))))"

definition ListRoutes ::
  "imported \<Rightarrow> ('c, 'i) knServingClient \<Rightarrow> ListConfig list \<Rightarrow> 'c state \<Rightarrow> (error + nat) \<times> 'c state" where
  "ListRoutes D cl config s =
     (case Routes_List (client cl) (namespace cl) (toListOptions D config) s of
        (Inl err, s1) \<Rightarrow> (Inl err, s1)
      | (Inr routeList, s1) \<Rightarrow> updateServingGvkForRouteList D routeList s1)"

section \<open>The readiness waiter of package wait\<close>

text \<open>
  \<open>WaitForService\<close> hands over to \<open>wait.NewWaitForReady\<close> and \<open>Wait\<close>, whose code is
  not among the sources. This section models the waiter from the specification
  (sections 3, 4.1, 4.2 and 4.3): time is counted in ticks, a subscription is the
  list of events it will deliver, each with the ticks that pass before it arrives, and
  the world records which subscriptions are open.
\<close>

text \<open>Modelled from the spec: the event kinds of the event stream (package wait, section 6).\<close>

datatype EventKind = ADDED | MODIFIED | DELETED | ERROR

text \<open>
  Modelled from the spec: an event of the stream (package wait, section 4.2): its kind,
  the name of the resource it is about, and the resource.
\<close>

record Event =
  Event_Kind :: EventKind
  Event_Name :: string
  Event_Object :: runtime_Object

text \<open>
  Modelled from the spec: what one subscription delivers (package wait, section 4.2):
  events, each after a delay, and then either the transport closes the channel after a
  further delay (\<open>Some d\<close>) or the stream stays open and silent (\<open>None\<close>).
\<close>

record EventStream =
  Stream_Events :: "(nat \<times> Event) list"
  Stream_Closes :: "nat option"

text \<open>Modelled from the spec: the readiness verdict (package wait, section 3).\<close>

datatype Verdict = Ready | Failed string | Unknown

text \<open>
  Modelled from the spec: the condition of a type in a condition set, where the last
  write for a type wins (package wait, section 3).
\<close>

definition conditionOf :: "string \<Rightarrow> Conditions \<Rightarrow> Condition option" where
  "conditionOf t conds = find (\<lambda>c. Condition_Type c = t) (rev conds)"

text \<open>
  Modelled from the spec: \<open>IsReady\<close> (package wait, section 4.1): a condition of type
  \<open>Ready\<close> exists with status \<open>True\<close>.
\<close>

definition IsReady :: "Conditions \<Rightarrow> bool" where
  "IsReady conds =
     (case conditionOf ''Ready'' conds of
        None \<Rightarrow> False
      | Some c \<Rightarrow> Condition_Status c = ConditionTrue)"

text \<open>
  Modelled from the spec: \<open>IsFailed\<close> (package wait, section 4.1): the condition of type
  \<open>Ready\<close> has status \<open>False\<close>; its reason is passed through.
\<close>

definition IsFailed :: "Conditions \<Rightarrow> bool \<times> string" where
  "IsFailed conds =
     (case conditionOf ''Ready'' conds of
        None \<Rightarrow> (False, '''')
      | Some c \<Rightarrow>
          if Condition_Status c = ConditionFalse then (True, Condition_Reason c) else (False, ''''))"

text \<open>
  Modelled from the spec: the verdict of a condition set (package wait, sections 3 and
  4.1); every other state is still progressing.
\<close>

definition verdict :: "Conditions \<Rightarrow> Verdict" where
  "verdict conds =
     (if IsReady conds then Ready
      else if fst (IsFailed conds) then Failed (snd (IsFailed conds))
      else Unknown)"

text \<open>
  Modelled from the spec: the terminal states of \<open>Wait\<close> (package wait, section 4.3);
  \<open>TimedOut\<close> carries the last non-terminal conditions seen, if any.
\<close>

datatype WaitResult = Success | Failure string | TimedOut "Conditions option" | Errored error

text \<open>
  Modelled from the spec: the waiter (package wait, section 4.3): the kind of resource
  and the condition extractor, fixed on construction.
\<close>

record Waiter =
  Waiter_Kind :: string
  Waiter_Extractor :: ConditionsExtractor

text \<open>
  Modelled from the spec: the collaborator as \<open>Wait\<close> sees it (package wait, section 6):
  the objects \<open>Get\<close> finds, what the next calls of \<open>Watch\<close> will return, the
  subscriptions that are open, and counts of the calls of \<open>Watch\<close>, of the
  subscriptions opened and of the subscriptions closed.
\<close>

record WaitWorld =
  objects :: "(string \<times> runtime_Object) list"
  feeds :: "(error + EventStream) list"
  live :: "nat list"
  watch_calls :: nat
  opened :: nat
  closed :: nat

text \<open>Modelled from the spec: a subscription identifier not in use (package wait).\<close>

definition freshId :: "nat list \<Rightarrow> nat" where
  "freshId ids = Suc (fold max ids 0)"

text \<open>
  Modelled from the spec: \<open>Watch(resourceName)\<close> (package wait, section 6) returns an
  event stream or an error; a stream it returns is an open subscription.
\<close>

definition Watch :: "string \<Rightarrow> WaitWorld \<Rightarrow> (error + nat \<times> EventStream) \<times> WaitWorld" where
  "Watch name w =
     (case feeds w of
        [] \<Rightarrow> (Inl (ErrorString ''watch failed''), w\<lparr>watch_calls := Suc (watch_calls w)\<rparr>)
      | Inl err # rest \<Rightarrow> (Inl err, w\<lparr>feeds := rest, watch_calls := Suc (watch_calls w)\<rparr>)
      | Inr stream # rest \<Rightarrow>
          (Inr (freshId (live w), stream),
           w\<lparr>feeds := rest, live := freshId (live w) # live w,
             watch_calls := Suc (watch_calls w), opened := Suc (opened w)\<rparr>))"

text \<open>
  Modelled from the spec: releasing a subscription (package wait, sections 3 and 5); a
  stream can be closed at any time without error.
\<close>

definition Stop :: "nat \<Rightarrow> WaitWorld \<Rightarrow> WaitWorld" where
  "Stop sub w = w\<lparr>live := removeAll sub (live w), closed := Suc (closed w)\<rparr>"

text \<open>
  Modelled from the spec: how the event loop on one subscription ends (package wait,
  section 4.3): with a terminal result, with the deadline, or with a stream error or
  closure and the budget that remains.
\<close>

datatype LoopEnd =
    Decided WaitResult
  | DeadlineElapsed "Conditions option"
  | StreamBroken nat "Conditions option"

text \<open>
  Modelled from the spec: the event loop (package wait, sections 4.2 and 4.3): read the
  next event or the deadline, whichever is first. An \<open>ERROR\<close> event and the closing of
  the channel are stream errors; an event for another name is ignored; \<open>DELETED\<close> is
  the failure \<open>deleted\<close>; otherwise the verdict of the extracted conditions decides, and
  a progressing event leaves the deadline as it is.
\<close>

fun consume ::
  "Waiter \<Rightarrow> string \<Rightarrow> (nat \<times> Event) list \<Rightarrow> nat option \<Rightarrow> nat \<Rightarrow> Conditions option \<Rightarrow> LoopEnd" where
  "consume wt name [] closes budget seen =
     (case closes of
        None \<Rightarrow> DeadlineElapsed seen
      | Some d \<Rightarrow> if d < budget then StreamBroken (budget - d) seen else DeadlineElapsed seen)"
| "consume wt name ((d, ev) # rest) closes budget seen =
     (if budget \<le> d then DeadlineElapsed seen
      else if Event_Kind ev = ERROR then StreamBroken (budget - d) seen
      else if Event_Name ev \<noteq> name then consume wt name rest closes (budget - d) seen
      else if Event_Kind ev = DELETED then Decided (Failure ''deleted'')
      else
        (case Waiter_Extractor wt (Event_Object ev) of
           Inl err \<Rightarrow> Decided (Errored err)
         | Inr conds \<Rightarrow>
             (case verdict conds of
                Ready \<Rightarrow> Decided Success
              | Failed reason \<Rightarrow> Decided (Failure reason)
              | Unknown \<Rightarrow> consume wt name rest closes (budget - d) (Some conds))))"

text \<open>
  Modelled from the spec: a zero timeout (package wait, section 4.3): check the current
  state once, with no subscription.
\<close>

definition checkOnce :: "Waiter \<Rightarrow> string \<Rightarrow> WaitWorld \<Rightarrow> WaitResult \<times> WaitWorld" where
  "checkOnce wt name w =
     (case map_of (objects w) name of
        None \<Rightarrow> (Errored (NewNotFound (Waiter_Kind wt) name), w)
      | Some obj \<Rightarrow>
          (case Waiter_Extractor wt obj of
             Inl err \<Rightarrow> (Errored err, w)
           | Inr conds \<Rightarrow>
               (case verdict conds of
                  Ready \<Rightarrow> (Success, w)
                | Failed reason \<Rightarrow> (Failure reason, w)
                | Unknown \<Rightarrow> (TimedOut (Some conds), w))))"

text \<open>
  Modelled from the spec: the error of the \<open>Errored\<close> result after a second stream
  error (package wait, section 7).
\<close>

definition streamBrokenError :: error where
  "streamBrokenError = ErrorString ''watch stream broken''"

text \<open>
  Modelled from the spec: \<open>Wait(name, timeout)\<close> (package wait, section 4.3): establish
  the subscription and run the loop; on a stream error or closure close the
  subscription and subscribe once more, with the budget that remains; a second stream
  error ends the wait with \<open>Errored\<close>. The subscription is closed on every path.
\<close>

definition Wait :: "Waiter \<Rightarrow> string \<Rightarrow> nat \<Rightarrow> WaitWorld \<Rightarrow> WaitResult \<times> WaitWorld" where
  "Wait wt name timeout w =
     (if timeout = 0 then checkOnce wt name w
      else
        (case Watch name w of
           (Inl err, w1) \<Rightarrow> (Errored err, w1)
         | (Inr (sub1, stream1), w1) \<Rightarrow>
             (case consume wt name (Stream_Events stream1) (Stream_Closes stream1) timeout None of
                Decided result \<Rightarrow> (result, Stop sub1 w1)
              | DeadlineElapsed seen \<Rightarrow> (TimedOut seen, Stop sub1 w1)
              | StreamBroken budget seen \<Rightarrow>
                  (case Watch name (Stop sub1 w1) of
                     (Inl err, w2) \<Rightarrow> (Errored err, w2)
                   | (Inr (sub2, stream2), w2) \<Rightarrow>
                       (case consume wt name (Stream_Events stream2) (Stream_Closes stream2) budget seen of
                          Decided result \<Rightarrow> (result, Stop sub2 w2)
                        | DeadlineElapsed seen2 \<Rightarrow> (TimedOut seen2, Stop sub2 w2)
                        | StreamBroken budget2 seen2 \<Rightarrow> (Errored streamBrokenError, Stop sub2 w2))))))"

section \<open>Test doubles\<close>

text \<open>
  One instance of the parameters, to run the model on concrete inputs: a cluster that
  keeps its revisions in an association list and logs every request, and simple
  versions of the imported functions.
\<close>

record fakeCluster =
  fake_revisions :: "(string \<times> Revision) list"
  fake_requests :: "string list"

definition fake_log :: "string \<Rightarrow> fakeCluster state \<Rightarrow> fakeCluster state" where
  "fake_log request s = s\<lparr>cluster := (cluster s)\<lparr>fake_requests := fake_requests (cluster s) @ [request]\<rparr>\<rparr>"

definition fake_Revisions_Get ::
  "string \<Rightarrow> string \<Rightarrow> fakeCluster state \<Rightarrow> (error + nat) \<times> fakeCluster state" where
  "fake_Revisions_Get ns name s =
     (case map_of (fake_revisions (cluster s)) name of
        None \<Rightarrow> (Inl (NewNotFound ''revisions'' name), fake_log (''get revisions '' @ name) s)
      | Some revision \<Rightarrow>
          (case alloc (RevisionObj revision) (fake_log (''get revisions '' @ name) s) of
             (p, s1) \<Rightarrow> (Inr p, s1)))"

text \<open>
  The list calls of the double hand out the objects it keeps at the addresses 0, 1
  and 2: the caller gets a pointer to the double's own list.
\<close>

definition fakeClient :: "(fakeCluster, unit) ServingV1alpha1Interface" where
  "fakeClient =
     \<lparr>Services_List = (\<lambda>ns opts s. (Inr 0, fake_log ''list services'' s)),
      Services_Watch = (\<lambda>ns opts s. (Inr (), fake_log ''watch services'' s)),
      Revisions_Get = fake_Revisions_Get,
      Revisions_List = (\<lambda>ns opts s. (Inr 1, fake_log ''list revisions'' s)),
      Routes_List = (\<lambda>ns opts s. (Inr 2, fake_log ''list routes'' s))\<rparr>"

definition fakeKnServingClient :: "(fakeCluster, unit) knServingClient" where
  "fakeKnServingClient = \<lparr>client = fakeClient, namespace = ''default''\<rparr>"

fun fake_setTypeMeta :: "TypeMeta \<Rightarrow> runtime_Object \<Rightarrow> runtime_Object" where
  "fake_setTypeMeta t (ServiceObj x) = ServiceObj (x\<lparr>Service_TypeMeta := t\<rparr>)"
| "fake_setTypeMeta t (RevisionObj x) = RevisionObj (x\<lparr>Revision_TypeMeta := t\<rparr>)"
| "fake_setTypeMeta t (RouteObj x) = RouteObj (x\<lparr>Route_TypeMeta := t\<rparr>)"
| "fake_setTypeMeta t (ConfigurationObj x) = ConfigurationObj (x\<lparr>Configuration_TypeMeta := t\<rparr>)"
| "fake_setTypeMeta t (ServiceListObj x) = ServiceListObj (x\<lparr>ServiceList_TypeMeta := t\<rparr>)"
| "fake_setTypeMeta t (RevisionListObj x) = RevisionListObj (x\<lparr>RevisionList_TypeMeta := t\<rparr>)"
| "fake_setTypeMeta t (RouteListObj x) = RouteListObj (x\<lparr>RouteList_TypeMeta := t\<rparr>)"

fun fake_kindOf :: "runtime_Object \<Rightarrow> string" where
  "fake_kindOf (ServiceObj x) = ''Service''"
| "fake_kindOf (RevisionObj x) = ''Revision''"
| "fake_kindOf (RouteObj x) = ''Route''"
| "fake_kindOf (ConfigurationObj x) = ''Configuration''"
| "fake_kindOf (ServiceListObj x) = ''ServiceList''"
| "fake_kindOf (RevisionListObj x) = ''RevisionList''"
| "fake_kindOf (RouteListObj x) = ''RouteList''"

definition fake_ContainerOfRevisionSpec :: "RevisionSpec \<Rightarrow> error + Container" where
  "fake_ContainerOfRevisionSpec revisionSpec =
     (case Containers revisionSpec of
        [] \<Rightarrow> Inl (ErrorString ''no container set'')
      | [c] \<Rightarrow> Inr c
      | _ \<Rightarrow> Inl (ErrorString ''more than one container''))"

definition fakeImported :: imported where
  "fakeImported =
     \<lparr>kn_errors_GetError = (\<lambda>err. err),
      util_UpdateGroupVersionKindWithScheme =
        (\<lambda>obj. (None, fake_setTypeMeta
                         \<lparr>Kind = fake_kindOf obj, APIVersion = ''serving.knative.dev/v1alpha1''\<rparr> obj)),
      serving_RevisionTemplateOfService =
        (\<lambda>service. case Template (Service_Spec service) of
                      None \<Rightarrow> Inl (ErrorString ''service does not specify any configuration'')
                    | Some template \<Rightarrow> Inr template),
      serving_ContainerOfRevisionSpec = fake_ContainerOfRevisionSpec,
      serving_ContainerOfRevisionTemplate = (\<lambda>template. fake_ContainerOfRevisionSpec (Template_Spec template)),
      labels_Set_String = (\<lambda>m. case m ServiceLabelKey of None \<Rightarrow> ''...'' | Some v \<Rightarrow> ServiceLabelKey @ ''='' @ v),
      fields_Set_String = (\<lambda>m. case m ''metadata.name'' of None \<Rightarrow> ''...'' | Some v \<Rightarrow> ''metadata.name='' @ v)\<rparr>"

definition fake_template :: "string \<Rightarrow> string \<Rightarrow> RevisionTemplateSpec" where
  "fake_template name img =
     \<lparr>Template_ObjectMeta = \<lparr>Name = name, Namespace = ''''\<rparr>,
      Template_Spec = \<lparr>DeprecatedContainer = None,
                       Containers = [\<lparr>Container_Name = ''user-container'', Image = img\<rparr>]\<rparr>\<rparr>"

definition fake_service :: "string \<Rightarrow> string \<Rightarrow> string \<Rightarrow> Service" where
  "fake_service templateName img latestCreated =
     \<lparr>Service_TypeMeta = \<lparr>Kind = '''', APIVersion = ''''\<rparr>,
      Service_ObjectMeta = \<lparr>Name = ''hello'', Namespace = ''default''\<rparr>,
      Service_Spec = \<lparr>Template = Some (fake_template templateName img)\<rparr>,
      Service_Status = \<lparr>Service_Conditions = [], LatestReadyRevisionName = '''',
                        LatestCreatedRevisionName = latestCreated\<rparr>\<rparr>"

definition fake_revision :: "string \<Rightarrow> string \<Rightarrow> Revision" where
  "fake_revision name img =
     \<lparr>Revision_TypeMeta = \<lparr>Kind = '''', APIVersion = ''''\<rparr>,
      Revision_ObjectMeta = \<lparr>Name = name, Namespace = ''default''\<rparr>,
      Revision_Spec = \<lparr>DeprecatedContainer = None,
                       Containers = [\<lparr>Container_Name = ''user-container'', Image = img\<rparr>]\<rparr>,
      Revision_Conditions = []\<rparr>"

text \<open>A cluster with the one revision \<open>hello-1\<close>, running image \<open>img:1\<close>.\<close>

definition fake_state :: "fakeCluster state" where
  "fake_state =
     \<lparr>cluster = \<lparr>fake_revisions = [(''hello-1'', fake_revision ''hello-1'' ''img:1'')],
                 fake_requests = []\<rparr>,
      heap = []\<rparr>"

definition fake_route :: "string \<Rightarrow> Route" where
  "fake_route name =
     \<lparr>Route_TypeMeta = \<lparr>Kind = '''', APIVersion = ''''\<rparr>,
      Route_ObjectMeta = \<lparr>Name = name, Namespace = ''default''\<rparr>,
      Route_Conditions = []\<rparr>"

definition fake_ServiceList :: ServiceList where
  "fake_ServiceList =
     \<lparr>ServiceList_TypeMeta = \<lparr>Kind = '''', APIVersion = ''''\<rparr>,
      ServiceList_ListMeta = \<lparr>ResourceVersion = ''7'', Continue = ''''\<rparr>,
      ServiceList_Items = [fake_service ''a'' ''img:1'' '''', fake_service ''b'' ''img:2'' '''']\<rparr>"

definition fake_RevisionList :: RevisionList where
  "fake_RevisionList =
     \<lparr>RevisionList_TypeMeta = \<lparr>Kind = '''', APIVersion = ''''\<rparr>,
      RevisionList_ListMeta = \<lparr>ResourceVersion = ''7'', Continue = ''''\<rparr>,
      RevisionList_Items = [fake_revision ''hello-1'' ''img:1'', fake_revision ''hello-2'' ''img:2'']\<rparr>"

definition fake_RouteList :: RouteList where
  "fake_RouteList =
     \<lparr>RouteList_TypeMeta = \<lparr>Kind = '''', APIVersion = ''''\<rparr>,
      RouteList_ListMeta = \<lparr>ResourceVersion = ''7'', Continue = ''''\<rparr>,
      RouteList_Items = [fake_route ''hello'', fake_route ''world'']\<rparr>"

text \<open>The state in which the double keeps its three lists.\<close>

definition fake_lists :: "fakeCluster state" where
  "fake_lists =
     \<lparr>cluster = \<lparr>fake_revisions = [], fake_requests = []\<rparr>,
      heap = [ServiceListObj fake_ServiceList, RevisionListObj fake_RevisionList,
              RouteListObj fake_RouteList]\<rparr>"

section \<open>Properties\<close>

subsection \<open>The condition extractor\<close>

lemma serviceConditionExtractor_Service:
  "serviceConditionExtractor (ServiceObj service) = Inr (Service_Conditions (Service_Status service))"
  by (simp add: serviceConditionExtractor_def)

lemma serviceConditionExtractor_other:
  "\<not> isService obj \<Longrightarrow> serviceConditionExtractor obj = Inl (Errorf ''%v is not a service'' obj)"
  by (cases obj) (simp_all add: serviceConditionExtractor_def)

text \<open>
  Claim C5. For every runtime object, the extractor returns an error if and only if
  the object is not a \<open>Service\<close>; for a \<open>Service\<close> it returns the conditions of its
  status as they are, and no error.
\<close>

theorem serviceConditionExtractor_error_iff:
  "((\<exists>err. serviceConditionExtractor obj = Inl err) \<longleftrightarrow> \<not> isService obj) \<and>
   serviceConditionExtractor (ServiceObj service) = Inr (Service_Conditions (Service_Status service))"
  by (cases obj) (simp_all add: serviceConditionExtractor_def)

subsection \<open>The base revision of a service\<close>

lemma getBaseRevision_named:
  assumes "serving_RevisionTemplateOfService D service = Inr template"
    and "Name (Template_ObjectMeta template) \<noteq> ''''"
  shows "getBaseRevision D cl service s = GetRevision cl (Name (Template_ObjectMeta template)) s"
  using assms by (simp add: getBaseRevision_def)

lemma GetRevision_impl_error:
  assumes "Revisions_Get (client kcl) (namespace kcl) name s = (Inl raw, s1)"
  shows "GetRevision_impl D kcl name s = (Inl (kn_errors_GetError D raw), s1)"
  using assms by (simp add: GetRevision_impl_def)

lemma IsNotFound_noBaseRevisionError: "\<not> IsNotFound noBaseRevisionError"
  by (simp add: noBaseRevisionError_def)

text \<open>
  Claim C1. When the template of the service has a name, \<open>getBaseRevision\<close> is the one
  call \<open>GetRevision(template.Name)\<close>: the same result, object or error, and the same
  state after it, so nothing else is asked of the cluster. The right-hand side does not
  mention the status of the service or the container accessors: neither the
  latest-created pointer nor an image is looked at, and any other service and any
  other accessors with the same template give the same outcome. The same holds for the
  method \<open>GetBaseRevision\<close> of the facade, with its own \<open>GetRevision\<close>.
\<close>

theorem getBaseRevision_explicit_name:
  assumes "serving_RevisionTemplateOfService D service = Inr template"
    and "Name (Template_ObjectMeta template) \<noteq> ''''"
  shows "getBaseRevision D cl service s = GetRevision cl (Name (Template_ObjectMeta template)) s
       \<and> GetBaseRevision D kcl service s = GetRevision_impl D kcl (Name (Template_ObjectMeta template)) s
       \<and> (\<forall>D' service'. serving_RevisionTemplateOfService D' service' = Inr template \<longrightarrow>
            getBaseRevision D' cl service' s = getBaseRevision D cl service s)"
proof -
  have one: "getBaseRevision D c service s = GetRevision c (Name (Template_ObjectMeta template)) s" for c :: "'a KnServingClient"
    using assms by (rule getBaseRevision_named)
  have facade: "GetBaseRevision D kcl service s = GetRevision_impl D kcl (Name (Template_ObjectMeta template)) s"
    unfolding GetBaseRevision_def
    by (simp add: getBaseRevision_named [OF assms] asKnServingClient_def)
  have other: "getBaseRevision D' cl service' s = getBaseRevision D cl service s"
    if "serving_RevisionTemplateOfService D' service' = Inr template" for D' service'
    using that assms by (simp add: getBaseRevision_named)
  from one facade other show ?thesis
    by blast
qed

lemmas fake_defs =
  fakeImported_def fake_service_def fake_template_def fake_revision_def fake_state_def
  fakeKnServingClient_def fakeClient_def fake_Revisions_Get_def fake_log_def
  fake_ContainerOfRevisionSpec_def alloc_def load_def store_def updateServingGvk_def
  GetRevision_impl_def NewNotFound_def

theorem getBaseRevision_explicit_name_witness:
  "serving_RevisionTemplateOfService fakeImported (fake_service ''hello-1'' ''img:2'' ''hello-0'')
     = Inr (fake_template ''hello-1'' ''img:2'')
   \<and> Name (Template_ObjectMeta (fake_template ''hello-1'' ''img:2'')) \<noteq> ''''
   \<and> fst (GetBaseRevision fakeImported fakeKnServingClient
          (fake_service ''hello-1'' ''img:2'' ''hello-0'') fake_state) = Inr 0
   \<and> fake_requests (cluster (snd (GetBaseRevision fakeImported fakeKnServingClient
          (fake_service ''hello-1'' ''img:2'' ''hello-0'') fake_state))) = [''get revisions hello-1'']"
proof -
  have t: "serving_RevisionTemplateOfService fakeImported (fake_service ''hello-1'' ''img:2'' ''hello-0'')
     = Inr (fake_template ''hello-1'' ''img:2'')"
    by (simp add: fakeImported_def fake_service_def)
  have n: "Name (Template_ObjectMeta (fake_template ''hello-1'' ''img:2'')) \<noteq> ''''"
    by (simp add: fake_template_def)
  show ?thesis
    using getBaseRevision_explicit_name [OF t n, of undefined fake_state fakeKnServingClient] t n
    by (simp add: fake_defs)
qed

text \<open>
  Claim C2. With no name in the template and a latest-created pointer, when the
  revision behind the pointer is fetched and both containers are found: if the two
  images differ the result is the error \<open>noBaseRevisionError\<close>, not the fetched
  revision; if they are equal the result is the fetched revision and no error.
\<close>

theorem getBaseRevision_latest_created:
  assumes "serving_RevisionTemplateOfService D service = Inr template"
    and "Name (Template_ObjectMeta template) = ''''"
    and "LatestCreatedRevisionName (Service_Status service) \<noteq> ''''"
    and "GetRevision cl (LatestCreatedRevisionName (Service_Status service)) s = (Inr latestCreated, s1)"
    and "load latestCreated s1 = Some (RevisionObj revision)"
    and "serving_ContainerOfRevisionSpec D (Revision_Spec revision) = Inr latestContainer"
    and "serving_ContainerOfRevisionTemplate D template = Inr container"
  shows "getBaseRevision D cl service s =
           (if Image latestContainer \<noteq> Image container
            then (Inl noBaseRevisionError, s1)
            else (Inr latestCreated, s1))"
  using assms by (simp add: getBaseRevision_def)

theorem getBaseRevision_latest_created_witness:
  "GetBaseRevision fakeImported fakeKnServingClient (fake_service '''' ''img:2'' ''hello-1'') fake_state
     = (Inl noBaseRevisionError,
        \<lparr>cluster = \<lparr>fake_revisions = [(''hello-1'', fake_revision ''hello-1'' ''img:1'')],
                    fake_requests = [''get revisions hello-1'']\<rparr>,
         heap = [RevisionObj ((fake_revision ''hello-1'' ''img:1'')
                   \<lparr>Revision_TypeMeta := \<lparr>Kind = ''Revision'', APIVersion = ''serving.knative.dev/v1alpha1''\<rparr>\<rparr>)]\<rparr>)
   \<and> fst (GetBaseRevision fakeImported fakeKnServingClient (fake_service '''' ''img:1'' ''hello-1'') fake_state)
     = Inr 0"
proof -
  let ?cl = "asKnServingClient fakeImported fakeKnServingClient"
  let ?s1 = "\<lparr>cluster = \<lparr>fake_revisions = [(''hello-1'', fake_revision ''hello-1'' ''img:1'')],
                    fake_requests = [''get revisions hello-1'']\<rparr>,
         heap = [RevisionObj ((fake_revision ''hello-1'' ''img:1'')
                   \<lparr>Revision_TypeMeta := \<lparr>Kind = ''Revision'', APIVersion = ''serving.knative.dev/v1alpha1''\<rparr>\<rparr>)]\<rparr>"
  let ?c1 = "\<lparr>Container_Name = ''user-container'', Image = ''img:1''\<rparr>"
  let ?c2 = "\<lparr>Container_Name = ''user-container'', Image = ''img:2''\<rparr>"
  let ?rev = "(fake_revision ''hello-1'' ''img:1'')
                   \<lparr>Revision_TypeMeta := \<lparr>Kind = ''Revision'', APIVersion = ''serving.knative.dev/v1alpha1''\<rparr>\<rparr>"
  let ?svc2 = "fake_service '''' ''img:2'' ''hello-1''"
  let ?svc1 = "fake_service '''' ''img:1'' ''hello-1''"
  have t2: "serving_RevisionTemplateOfService fakeImported ?svc2 = Inr (fake_template '''' ''img:2'')"
    and t1: "serving_RevisionTemplateOfService fakeImported ?svc1 = Inr (fake_template '''' ''img:1'')"
    by (simp_all add: fakeImported_def fake_service_def)
  have n2: "Name (Template_ObjectMeta (fake_template '''' ''img:2'')) = ''''"
    and n1: "Name (Template_ObjectMeta (fake_template '''' ''img:1'')) = ''''"
    by (simp_all add: fake_template_def)
  have p2: "LatestCreatedRevisionName (Service_Status ?svc2) \<noteq> ''''"
    and p1: "LatestCreatedRevisionName (Service_Status ?svc1) \<noteq> ''''"
    by (simp_all add: fake_service_def)
  have get2: "GetRevision ?cl (LatestCreatedRevisionName (Service_Status ?svc2)) fake_state = (Inr 0, ?s1)"
    and get1: "GetRevision ?cl (LatestCreatedRevisionName (Service_Status ?svc1)) fake_state = (Inr 0, ?s1)"
    by (simp_all add: asKnServingClient_def fake_defs)
  have ld: "load 0 ?s1 = Some (RevisionObj ?rev)"
    by (simp add: load_def)
  have lc: "serving_ContainerOfRevisionSpec fakeImported (Revision_Spec ?rev) = Inr ?c1"
    by (simp add: fake_defs)
  have c2: "serving_ContainerOfRevisionTemplate fakeImported (fake_template '''' ''img:2'') = Inr ?c2"
    and c1: "serving_ContainerOfRevisionTemplate fakeImported (fake_template '''' ''img:1'') = Inr ?c1"
    by (simp_all add: fake_defs)
  have differ: "getBaseRevision fakeImported ?cl ?svc2 fake_state
      = (if Image ?c1 \<noteq> Image ?c2 then (Inl noBaseRevisionError, ?s1) else (Inr 0, ?s1))"
    by (rule getBaseRevision_latest_created [OF t2 n2 p2 get2 ld lc c2])
  have same: "getBaseRevision fakeImported ?cl ?svc1 fake_state
      = (if Image ?c1 \<noteq> Image ?c1 then (Inl noBaseRevisionError, ?s1) else (Inr 0, ?s1))"
    by (rule getBaseRevision_latest_created [OF t1 n1 p1 get1 ld lc c1])
  from differ same show ?thesis
    by (simp add: GetBaseRevision_def)
qed

text \<open>
  Claim C3. With no name in the template and no latest-created pointer,
  \<open>getBaseRevision\<close> fails with \<open>noBaseRevisionError\<close>, a value of type
  \<open>NoBaseRevisionError\<close>, and leaves the state as it was: nothing is fetched. This
  error is not a not-found error: it differs from every error that \<open>IsNotFound\<close>
  accepts, and the method of the facade returns it as it is.
\<close>

theorem getBaseRevision_no_pointer:
  assumes "serving_RevisionTemplateOfService D service = Inr template"
    and "Name (Template_ObjectMeta template) = ''''"
    and "LatestCreatedRevisionName (Service_Status service) = ''''"
  shows "getBaseRevision D cl service s = (Inl noBaseRevisionError, s)
       \<and> GetBaseRevision D kcl service s = (Inl noBaseRevisionError, s)
       \<and> (\<exists>msg. noBaseRevisionError = NoBaseRevisionError msg)
       \<and> \<not> IsNotFound noBaseRevisionError
       \<and> (\<forall>err. IsNotFound err \<longrightarrow> err \<noteq> noBaseRevisionError)"
proof -
  have "getBaseRevision D c service s = (Inl noBaseRevisionError, s)" for c :: "'a KnServingClient"
    using assms by (simp add: getBaseRevision_def)
  moreover have "\<exists>msg. noBaseRevisionError = NoBaseRevisionError msg"
    by (simp add: noBaseRevisionError_def)
  moreover have "\<forall>err. IsNotFound err \<longrightarrow> err \<noteq> noBaseRevisionError"
    using IsNotFound_noBaseRevisionError by blast
  ultimately show ?thesis
    using IsNotFound_noBaseRevisionError by (simp add: GetBaseRevision_def)
qed

theorem getBaseRevision_no_pointer_witness:
  "GetBaseRevision fakeImported fakeKnServingClient (fake_service '''' ''img:1'' '''') fake_state
     = (Inl (NoBaseRevisionError ''base revision not found''), fake_state)
   \<and> NewNotFound ''revisions'' ''hello-2'' \<noteq> noBaseRevisionError"
proof -
  let ?svc = "fake_service '''' ''img:1'' ''''"
  have t: "serving_RevisionTemplateOfService fakeImported ?svc = Inr (fake_template '''' ''img:1'')"
    by (simp add: fakeImported_def fake_service_def)
  have n: "Name (Template_ObjectMeta (fake_template '''' ''img:1'')) = ''''"
    by (simp add: fake_template_def)
  have p: "LatestCreatedRevisionName (Service_Status ?svc) = ''''"
    by (simp add: fake_service_def)
  have nf: "IsNotFound (NewNotFound ''revisions'' ''hello-2'')"
    by (simp add: NewNotFound_def)
  show ?thesis
    using getBaseRevision_no_pointer [OF t n p, of undefined fake_state fakeKnServingClient] nf
    by (simp add: noBaseRevisionError_def)
qed

text \<open>
  Claim C4. When the template names a revision and the \<open>GetRevision\<close> of the client
  fails, \<open>getBaseRevision\<close> returns that error as it is, with the state the call left;
  a not-found error is never \<open>noBaseRevisionError\<close>. For the facade, whose
  \<open>GetRevision\<close> passes the error of the generated client through
  \<open>kn_errors.GetError\<close>, the result is that error as \<open>GetError\<close> returns it, and the
  very error of the generated client whenever \<open>GetError\<close> leaves it alone.
\<close>

theorem getBaseRevision_propagates_not_found:
  assumes "serving_RevisionTemplateOfService D service = Inr template"
    and "Name (Template_ObjectMeta template) \<noteq> ''''"
  shows "(\<forall>err s1. GetRevision cl (Name (Template_ObjectMeta template)) s = (Inl err, s1) \<longrightarrow>
            getBaseRevision D cl service s = (Inl err, s1)
            \<and> (IsNotFound err \<longrightarrow> err \<noteq> noBaseRevisionError))
       \<and> (\<forall>raw s1. Revisions_Get (client kcl) (namespace kcl) (Name (Template_ObjectMeta template)) s
                      = (Inl raw, s1) \<longrightarrow>
            GetBaseRevision D kcl service s = (Inl (kn_errors_GetError D raw), s1)
            \<and> (kn_errors_GetError D raw = raw \<longrightarrow> GetBaseRevision D kcl service s = (Inl raw, s1)))"
proof -
  have iface: "getBaseRevision D cl service s = (Inl err, s1)"
    if "GetRevision cl (Name (Template_ObjectMeta template)) s = (Inl err, s1)" for err s1
    using that by (simp add: getBaseRevision_named [OF assms])
  have differ: "err \<noteq> noBaseRevisionError" if "IsNotFound err" for err
    using that IsNotFound_noBaseRevisionError by blast
  have facade: "GetBaseRevision D kcl service s = (Inl (kn_errors_GetError D raw), s1)"
    if "Revisions_Get (client kcl) (namespace kcl) (Name (Template_ObjectMeta template)) s = (Inl raw, s1)"
    for raw s1
    unfolding GetBaseRevision_def
    by (simp add: getBaseRevision_named [OF assms] asKnServingClient_def
        GetRevision_impl_error [OF that])
  from iface differ facade show ?thesis
    by simp
qed

theorem getBaseRevision_propagates_not_found_witness:
  "GetBaseRevision fakeImported fakeKnServingClient (fake_service ''rev-42'' ''img:1'' ''hello-1'') fake_state
     = (Inl (StatusError StatusReasonNotFound ''revisions'' ''rev-42''),
        fake_state\<lparr>cluster := (cluster fake_state)\<lparr>fake_requests := [''get revisions rev-42'']\<rparr>\<rparr>)"
proof -
  let ?svc = "fake_service ''rev-42'' ''img:1'' ''hello-1''"
  let ?s1 = "fake_state\<lparr>cluster := (cluster fake_state)\<lparr>fake_requests := [''get revisions rev-42'']\<rparr>\<rparr>"
  have t: "serving_RevisionTemplateOfService fakeImported ?svc = Inr (fake_template ''rev-42'' ''img:1'')"
    by (simp add: fakeImported_def fake_service_def)
  have n: "Name (Template_ObjectMeta (fake_template ''rev-42'' ''img:1'')) \<noteq> ''''"
    by (simp add: fake_template_def)
  have raw: "Revisions_Get (client fakeKnServingClient) (namespace fakeKnServingClient)
               (Name (Template_ObjectMeta (fake_template ''rev-42'' ''img:1''))) fake_state
             = (Inl (StatusError StatusReasonNotFound ''revisions'' ''rev-42''), ?s1)"
    by (simp add: fake_defs)
  have same: "kn_errors_GetError fakeImported (StatusError StatusReasonNotFound ''revisions'' ''rev-42'')
              = StatusError StatusReasonNotFound ''revisions'' ''rev-42''"
    by (simp add: fakeImported_def)
  from getBaseRevision_propagates_not_found [OF t n, of undefined fake_state fakeKnServingClient]
  have "GetBaseRevision fakeImported fakeKnServingClient ?svc fake_state
          = (Inl (StatusError StatusReasonNotFound ''revisions'' ''rev-42''), ?s1)"
    using raw same by blast
  then show ?thesis .
qed

subsection \<open>List options\<close>

lemma WithService_neq_WithName: "WithService service \<noteq> WithName name"
proof
  assume "WithService service = WithName name"
  then have "Fields (WithService service \<lparr>Labels = Map.empty, Fields = Map.empty\<rparr>)
           = Fields (WithName name \<lparr>Labels = Map.empty, Fields = Map.empty\<rparr>)"
    by simp
  then have "Map.empty = [''metadata.name'' \<mapsto> name]"
    by (simp add: WithService_def WithName_def)
  then show False
    by (metis map_upd_nonempty)
qed

lemma WithName_in_Cons_WithService:
  "(\<exists>name. WithName name \<in> set (WithService service # opts)) = (\<exists>name. WithName name \<in> set opts)"
  using WithService_neq_WithName [of service] by (metis set_ConsD list.set_intros(2))

lemma WithService_in_Cons_WithName:
  "(\<exists>service. WithService service \<in> set (WithName name # opts)) = (\<exists>service. WithService service \<in> set opts)"
  using WithService_neq_WithName [of _ name] by (metis set_ConsD list.set_intros(2))

lemma applyConfigs_Fields:
  assumes "\<forall>f \<in> set opts. isListConfig f"
  shows "(Fields (applyConfigs opts c) \<noteq> Map.empty)
           = (Fields c \<noteq> Map.empty \<or> (\<exists>name. WithName name \<in> set opts))"
  using assms
proof (induction opts arbitrary: c)
  case Nil
  then show ?case by simp
next
  case (Cons f opts)
  then have rest: "\<forall>g \<in> set opts. isListConfig g" and f: "isListConfig f"
    by simp_all
  from f consider (name) name where "f = WithName name" | (service) service where "f = WithService service"
    unfolding isListConfig_def by blast
  then show ?case
  proof cases
    case name
    have "Fields (f c) \<noteq> Map.empty"
      by (simp add: name WithName_def)
    moreover have "\<exists>n. WithName n \<in> set (f # opts)"
      using name by auto
    ultimately show ?thesis
      using Cons.IH [OF rest, of "f c"] by simp
  next
    case service
    have "Fields (f c) = Fields c"
      by (simp add: service WithService_def)
    then show ?thesis
      using Cons.IH [OF rest, of "f c"] WithName_in_Cons_WithService [of service opts]
      by (simp add: service)
  qed
qed

lemma applyConfigs_Labels:
  assumes "\<forall>f \<in> set opts. isListConfig f"
  shows "(Labels (applyConfigs opts c) \<noteq> Map.empty)
           = (Labels c \<noteq> Map.empty \<or> (\<exists>service. WithService service \<in> set opts))"
  using assms
proof (induction opts arbitrary: c)
  case Nil
  then show ?case by simp
next
  case (Cons f opts)
  then have rest: "\<forall>g \<in> set opts. isListConfig g" and f: "isListConfig f"
    by simp_all
  from f consider (name) name where "f = WithName name" | (service) service where "f = WithService service"
    unfolding isListConfig_def by blast
  then show ?case
  proof cases
    case name
    have "Labels (f c) = Labels c"
      by (simp add: name WithName_def)
    then show ?thesis
      using Cons.IH [OF rest, of "f c"] WithService_in_Cons_WithName [of name opts]
      by (simp add: name)
  next
    case service
    have "Labels (f c) \<noteq> Map.empty"
      by (simp add: service WithService_def)
    moreover have "\<exists>n. WithService n \<in> set (f # opts)"
      using service by auto
    ultimately show ?thesis
      using Cons.IH [OF rest, of "f c"] by simp
  qed
qed

lemma toListOptions_FieldSelector:
  "FieldSelector (toListOptions D opts) =
     (if Fields (applyConfigs opts \<lparr>Labels = Map.empty, Fields = Map.empty\<rparr>) = Map.empty then ''''
      else fields_Set_String D (Fields (applyConfigs opts \<lparr>Labels = Map.empty, Fields = Map.empty\<rparr>)))"
  by (simp add: toListOptions_def Let_def)

lemma toListOptions_LabelSelector:
  "LabelSelector (toListOptions D opts) =
     (if Labels (applyConfigs opts \<lparr>Labels = Map.empty, Fields = Map.empty\<rparr>) = Map.empty then ''''
      else labels_Set_String D (Labels (applyConfigs opts \<lparr>Labels = Map.empty, Fields = Map.empty\<rparr>)))"
  by (simp add: toListOptions_def Let_def)

text \<open>
  Claim C9. For every sequence of the package's \<open>ListConfig\<close> functions, the field
  selector of \<open>toListOptions\<close> is the string of the accumulated field set when some
  config added a field entry (a \<open>WithName\<close> is in the sequence) and is left empty
  otherwise, and the label selector is the string of the accumulated label set when
  some config added a label entry (a \<open>WithService\<close> is in the sequence) and is left
  empty otherwise. With no config both selectors are empty. For configs of any kind
  the selector is set exactly when the accumulated set is not empty.
\<close>

theorem toListOptions_selectors:
  assumes "\<forall>f \<in> set opts. isListConfig f"
  shows "FieldSelector (toListOptions D opts) =
           (if \<exists>name. WithName name \<in> set opts
            then fields_Set_String D (Fields (applyConfigs opts \<lparr>Labels = Map.empty, Fields = Map.empty\<rparr>))
            else '''')
       \<and> LabelSelector (toListOptions D opts) =
           (if \<exists>service. WithService service \<in> set opts
            then labels_Set_String D (Labels (applyConfigs opts \<lparr>Labels = Map.empty, Fields = Map.empty\<rparr>))
            else '''')
       \<and> ((\<exists>name. WithName name \<in> set opts)
            = (Fields (applyConfigs opts \<lparr>Labels = Map.empty, Fields = Map.empty\<rparr>) \<noteq> Map.empty))
       \<and> ((\<exists>service. WithService service \<in> set opts)
            = (Labels (applyConfigs opts \<lparr>Labels = Map.empty, Fields = Map.empty\<rparr>) \<noteq> Map.empty))
       \<and> toListOptions D [] = \<lparr>LabelSelector = '''', FieldSelector = ''''\<rparr>
       \<and> (\<forall>fs. FieldSelector (toListOptions D fs) =
                  (if Fields (applyConfigs fs \<lparr>Labels = Map.empty, Fields = Map.empty\<rparr>) = Map.empty then ''''
                   else fields_Set_String D (Fields (applyConfigs fs \<lparr>Labels = Map.empty, Fields = Map.empty\<rparr>)))
                \<and> LabelSelector (toListOptions D fs) =
                  (if Labels (applyConfigs fs \<lparr>Labels = Map.empty, Fields = Map.empty\<rparr>) = Map.empty then ''''
                   else labels_Set_String D (Labels (applyConfigs fs \<lparr>Labels = Map.empty, Fields = Map.empty\<rparr>))))"
proof -
  let ?init = "\<lparr>Labels = Map.empty, Fields = Map.empty\<rparr>"
  have fields: "(\<exists>name. WithName name \<in> set opts) = (Fields (applyConfigs opts ?init) \<noteq> Map.empty)"
    using applyConfigs_Fields [OF assms, of ?init] by simp
  have labels: "(\<exists>service. WithService service \<in> set opts) = (Labels (applyConfigs opts ?init) \<noteq> Map.empty)"
    using applyConfigs_Labels [OF assms, of ?init] by simp
  have none: "toListOptions D [] = \<lparr>LabelSelector = '''', FieldSelector = ''''\<rparr>"
    by (simp add: toListOptions_def)
  have fsel: "FieldSelector (toListOptions D opts) =
           (if \<exists>name. WithName name \<in> set opts
            then fields_Set_String D (Fields (applyConfigs opts ?init)) else '''')"
    unfolding fields by (simp add: toListOptions_FieldSelector)
  have lsel: "LabelSelector (toListOptions D opts) =
           (if \<exists>service. WithService service \<in> set opts
            then labels_Set_String D (Labels (applyConfigs opts ?init)) else '''')"
    unfolding labels by (simp add: toListOptions_LabelSelector)
  have general: "FieldSelector (toListOptions D fs) =
                  (if Fields (applyConfigs fs ?init) = Map.empty then ''''
                   else fields_Set_String D (Fields (applyConfigs fs ?init)))
                \<and> LabelSelector (toListOptions D fs) =
                  (if Labels (applyConfigs fs ?init) = Map.empty then ''''
                   else labels_Set_String D (Labels (applyConfigs fs ?init)))" for fs
    using toListOptions_FieldSelector [of D fs] toListOptions_LabelSelector [of D fs] by (rule conjI)
  show ?thesis
    by (intro conjI allI fsel lsel fields labels none general)
qed

theorem toListOptions_selectors_witness:
  "isListConfig (WithName ''hello'') \<and> isListConfig (WithService ''svc'')
   \<and> isListConfig (WithName ''world'')
   \<and> FieldSelector (toListOptions fakeImported [WithName ''hello'', WithService ''svc'', WithName ''world''])
       = ''metadata.name=world''
   \<and> LabelSelector (toListOptions fakeImported [WithName ''hello'', WithService ''svc'', WithName ''world''])
       = ServiceLabelKey @ ''=svc''
   \<and> FieldSelector (toListOptions fakeImported [WithService ''svc'']) = ''''"
proof -
  have h: "\<forall>f \<in> set [WithName ''hello'', WithService ''svc'', WithName ''world'']. isListConfig f"
    and h': "\<forall>f \<in> set [WithService ''svc'']. isListConfig f"
    unfolding isListConfig_def by auto
  have w: "\<exists>name. WithName name \<in> set [WithName ''hello'', WithService ''svc'', WithName ''world'']"
    and s: "\<exists>service. WithService service \<in> set [WithName ''hello'', WithService ''svc'', WithName ''world'']"
    by auto
  have nw: "\<not> (\<exists>name. WithName name \<in> set [WithService ''svc''])"
    using WithService_neq_WithName [of "''svc''"] by (metis empty_iff empty_set set_ConsD)
  let ?opts = "[WithName ''hello'', WithService ''svc'', WithName ''world'']"
  let ?init = "\<lparr>Labels = Map.empty, Fields = Map.empty\<rparr>"
  have f1: "fields_Set_String fakeImported (Fields (applyConfigs ?opts ?init)) = ''metadata.name=world''"
    by (simp add: fakeImported_def WithName_def WithService_def)
  have l1: "labels_Set_String fakeImported (Labels (applyConfigs ?opts ?init)) = ServiceLabelKey @ ''=svc''"
    by (simp add: fakeImported_def WithName_def WithService_def)
  from toListOptions_selectors [OF h, of fakeImported]
  have "FieldSelector (toListOptions fakeImported ?opts) = ''metadata.name=world''"
    and "LabelSelector (toListOptions fakeImported ?opts) = ServiceLabelKey @ ''=svc''"
    unfolding f1 l1 if_P [OF w] if_P [OF s] by blast+
  moreover from toListOptions_selectors [OF h', of fakeImported]
  have "FieldSelector (toListOptions fakeImported [WithService ''svc'']) = ''''"
    unfolding if_not_P [OF nw] by blast
  ultimately show ?thesis
    using h by simp
qed

subsection \<open>Waiting for a service\<close>

text \<open>
  Claim C6. For every name and timeout, \<open>WaitForService\<close> is \<open>Wait(name, timeout)\<close>
  of the waiter that \<open>NewWaitForReady\<close> makes from the kind \<open>service\<close>, the watch
  function of the services of the client's namespace, and
  \<open>serviceConditionExtractor\<close>: the same error and the same state, with nothing done
  to the result. This holds for every implementation of package \<open>wait\<close>.
\<close>

theorem WaitForService_is_Wait:
  "WaitForService W cl name timeout s =
     WaitForReady_Wait W
       (wait_NewWaitForReady W ''service'' (Services_Watch (client cl) (namespace cl))
          serviceConditionExtractor)
       name timeout s"
  by (simp add: WaitForService_def newServiceWaitForReady_def)

subsection \<open>Lists: what the copies share with the originals\<close>

lemma load_ServiceList_Some:
  "(load_ServiceList p s = Some x) = (p < length (heap s) \<and> heap s ! p = ServiceListObj x)"
  by (simp add: load_ServiceList_def load_def split: runtime_Object.splits)

lemma load_Service_Some:
  "(load_Service p s = Some x) = (p < length (heap s) \<and> heap s ! p = ServiceObj x)"
  by (simp add: load_Service_def load_def split: runtime_Object.splits)

lemma updateServingGvk_new:
  "updateServingGvk D (length (heap s)) (s\<lparr>heap := heap s @ [obj]\<rparr>) =
     (fst (util_UpdateGroupVersionKindWithScheme D obj),
      s\<lparr>heap := heap s @ [snd (util_UpdateGroupVersionKindWithScheme D obj)]\<rparr>)"
  by (simp add: updateServingGvk_def load_def store_def split: prod.splits)

lemma ListServices_items_step:
  assumes run: "ListServices_items D src dst (idx # rest) s = (None, s')"
    and src: "load_ServiceList src s = Some l"
    and dst: "load_ServiceList dst s = Some new"
  shows "\<exists>clone. idx < length (ServiceList_Items l) \<and> idx < length (ServiceList_Items new)
           \<and> util_UpdateGroupVersionKindWithScheme D (ServiceObj (ServiceList_Items l ! idx))
               = (None, ServiceObj clone)
           \<and> ListServices_items D src dst rest
               (s\<lparr>heap := (heap s @ [ServiceObj clone])
                            [dst := ServiceListObj (new\<lparr>ServiceList_Items := (ServiceList_Items new)[idx := clone]\<rparr>)]\<rparr>)
               = (None, s')"
proof -
  obtain err v where u: "util_UpdateGroupVersionKindWithScheme D (ServiceObj (ServiceList_Items l ! idx)) = (err, v)"
    by (cases "util_UpdateGroupVersionKindWithScheme D (ServiceObj (ServiceList_Items l ! idx))")
  from dst have d: "dst < length (heap s)" "heap s ! dst = ServiceListObj new"
    by (simp_all add: load_ServiceList_Some)
  let ?s2 = "s\<lparr>heap := heap s @ [v]\<rparr>"
  have dst2: "load_ServiceList dst ?s2 = Some new"
    using d by (simp add: load_ServiceList_Some nth_append)
  have clone2: "load_Service (length (heap s)) ?s2 = (case v of ServiceObj c \<Rightarrow> Some c | _ \<Rightarrow> None)"
    by (simp add: load_Service_def load_def)
  from run src have idx: "idx < length (ServiceList_Items l)"
    by (simp split: if_splits)
  with run src u have run2:
    "(case err of Some e \<Rightarrow> (Some e, ?s2)
      | None \<Rightarrow>
         (case load_Service (length (heap s)) ?s2 of
            None \<Rightarrow> (Some nilPointerDereference, ?s2)
          | Some clone \<Rightarrow>
              (case load_ServiceList dst ?s2 of
                 None \<Rightarrow> (Some nilPointerDereference, ?s2)
               | Some new \<Rightarrow>
                   if length (ServiceList_Items new) \<le> idx then (Some indexOutOfRange, ?s2)
                   else ListServices_items D src dst rest
                          (store dst (ServiceListObj (new\<lparr>ServiceList_Items := (ServiceList_Items new)[idx := clone]\<rparr>)) ?s2))))
     = (None, s')"
    by (simp add: alloc_def updateServingGvk_new)
  then have err: "err = None"
    by (simp split: option.splits)
  from run2 err obtain clone where v: "v = ServiceObj clone"
    unfolding clone2 by (cases v) simp_all
  from run2 err v have "idx < length (ServiceList_Items new)
      \<and> ListServices_items D src dst rest
          (store dst (ServiceListObj (new\<lparr>ServiceList_Items := (ServiceList_Items new)[idx := clone]\<rparr>)) ?s2)
        = (None, s')"
    unfolding clone2 dst2 by (simp split: if_splits)
  with idx u err v show ?thesis
    by (simp add: store_def)
qed

lemma ListServices_items_frame:
  assumes "ListServices_items D src dst idxs s = (None, s')"
    and "load_ServiceList src s = Some l"
    and "load_ServiceList dst s = Some new"
    and "src \<noteq> dst"
  shows "cluster s' = cluster s \<and> length (heap s) \<le> length (heap s')
       \<and> (\<forall>a<length (heap s). a \<noteq> dst \<longrightarrow> heap s' ! a = heap s ! a)
       \<and> (\<exists>new'. load_ServiceList dst s' = Some new'
             \<and> ServiceList_TypeMeta new' = ServiceList_TypeMeta new
             \<and> ServiceList_ListMeta new' = ServiceList_ListMeta new
             \<and> length (ServiceList_Items new') = length (ServiceList_Items new)
             \<and> (\<forall>i\<in>set idxs. util_UpdateGroupVersionKindWithScheme D (ServiceObj (ServiceList_Items l ! i))
                                 = (None, ServiceObj (ServiceList_Items new' ! i)))
             \<and> (\<forall>i. i \<notin> set idxs \<longrightarrow> ServiceList_Items new' ! i = ServiceList_Items new ! i))"
  using assms
proof (induction idxs arbitrary: s new)
  case Nil
  then show ?case by simp
next
  case (Cons idx rest)
  from ListServices_items_step [OF Cons.prems(1) Cons.prems(2) Cons.prems(3)]
  obtain clone where idx: "idx < length (ServiceList_Items l)" "idx < length (ServiceList_Items new)"
    and u: "util_UpdateGroupVersionKindWithScheme D (ServiceObj (ServiceList_Items l ! idx)) = (None, ServiceObj clone)"
    and run: "ListServices_items D src dst rest
               (s\<lparr>heap := (heap s @ [ServiceObj clone])
                            [dst := ServiceListObj (new\<lparr>ServiceList_Items := (ServiceList_Items new)[idx := clone]\<rparr>)]\<rparr>)
               = (None, s')"
    by blast
  let ?new3 = "new\<lparr>ServiceList_Items := (ServiceList_Items new)[idx := clone]\<rparr>"
  let ?s3 = "s\<lparr>heap := (heap s @ [ServiceObj clone])[dst := ServiceListObj ?new3]\<rparr>"
  from Cons.prems(2) have s: "src < length (heap s)" "heap s ! src = ServiceListObj l"
    by (simp_all add: load_ServiceList_Some)
  from Cons.prems(3) have d: "dst < length (heap s)"
    by (simp add: load_ServiceList_Some)
  have src3: "load_ServiceList src ?s3 = Some l"
    using s Cons.prems(4) by (simp add: load_ServiceList_Some nth_append)
  have dst3: "load_ServiceList dst ?s3 = Some ?new3"
    using d by (simp add: load_ServiceList_Some)
  from Cons.IH [OF run src3 dst3 Cons.prems(4)]
  obtain new' where cl: "cluster s' = cluster ?s3" and len: "length (heap ?s3) \<le> length (heap s')"
    and frame: "\<forall>a<length (heap ?s3). a \<noteq> dst \<longrightarrow> heap s' ! a = heap ?s3 ! a"
    and new': "load_ServiceList dst s' = Some new'"
      "ServiceList_TypeMeta new' = ServiceList_TypeMeta ?new3"
      "ServiceList_ListMeta new' = ServiceList_ListMeta ?new3"
      "length (ServiceList_Items new') = length (ServiceList_Items ?new3)"
    and updated: "\<forall>i\<in>set rest. util_UpdateGroupVersionKindWithScheme D (ServiceObj (ServiceList_Items l ! i))
                                 = (None, ServiceObj (ServiceList_Items new' ! i))"
    and kept: "\<forall>i. i \<notin> set rest \<longrightarrow> ServiceList_Items new' ! i = ServiceList_Items ?new3 ! i"
    by blast
  have c: "cluster s' = cluster s"
    using cl by simp
  have l: "length (heap s) \<le> length (heap s')"
    using len by simp
  have f: "\<forall>a<length (heap s). a \<noteq> dst \<longrightarrow> heap s' ! a = heap s ! a"
  proof (intro allI impI)
    fix a assume a: "a < length (heap s)" "a \<noteq> dst"
    then have "heap s' ! a = heap ?s3 ! a"
      using frame by simp
    also have "\<dots> = heap s ! a"
      using a by (simp add: nth_append)
    finally show "heap s' ! a = heap s ! a" .
  qed
  have at_idx: "util_UpdateGroupVersionKindWithScheme D (ServiceObj (ServiceList_Items l ! idx))
                  = (None, ServiceObj (ServiceList_Items new' ! idx))"
  proof (cases "idx \<in> set rest")
    case True
    then show ?thesis using updated by blast
  next
    case False
    then have "ServiceList_Items new' ! idx = clone"
      using kept idx(2) by simp
    then show ?thesis using u by simp
  qed
  have all: "\<forall>i\<in>set (idx # rest). util_UpdateGroupVersionKindWithScheme D (ServiceObj (ServiceList_Items l ! i))
                                 = (None, ServiceObj (ServiceList_Items new' ! i))"
    using at_idx updated by simp
  have k: "\<forall>i. i \<notin> set (idx # rest) \<longrightarrow> ServiceList_Items new' ! i = ServiceList_Items new ! i"
    using kept by simp
  have m: "ServiceList_TypeMeta new' = ServiceList_TypeMeta new"
    "ServiceList_ListMeta new' = ServiceList_ListMeta new"
    "length (ServiceList_Items new') = length (ServiceList_Items new)"
    using new' by simp_all
  from c l f new'(1) m all k show ?case
    by blast
qed

lemma ListServices_success:
  assumes call: "Services_List (client cl) (namespace cl) (toListOptions D config) s = (Inr p, s1)"
    and run: "ListServices D cl config s = (Inr q, s')"
  shows "\<exists>l l'. load_ServiceList p s1 = Some l \<and> load_ServiceList p s' = Some l
           \<and> load_ServiceList q s' = Some l' \<and> q = length (heap s1)
           \<and> cluster s' = cluster s1
           \<and> (\<forall>a<length (heap s1). heap s' ! a = heap s1 ! a)
           \<and> length (ServiceList_Items l') = length (ServiceList_Items l)
           \<and> (\<forall>i<length (ServiceList_Items l).
                 util_UpdateGroupVersionKindWithScheme D (ServiceObj (ServiceList_Items l ! i))
                   = (None, ServiceObj (ServiceList_Items l' ! i)))"
proof -
  from run call obtain l where l: "load_ServiceList p s1 = Some l"
    by (cases "load_ServiceList p s1") (simp_all add: ListServices_def DeepCopy_ServiceList_def)
  then have p: "p < length (heap s1)" "heap s1 ! p = ServiceListObj l"
    by (simp_all add: load_ServiceList_Some)
  let ?q = "length (heap s1)"
  obtain err v where u: "util_UpdateGroupVersionKindWithScheme D (ServiceListObj l) = (err, v)"
    by (cases "util_UpdateGroupVersionKindWithScheme D (ServiceListObj l)")
  let ?s3 = "s1\<lparr>heap := heap s1 @ [v]\<rparr>"
  have p3: "load_ServiceList p ?s3 = Some l"
    using p by (simp add: load_ServiceList_Some nth_append)
  have q3: "load_ServiceList ?q ?s3 = (case v of ServiceListObj x \<Rightarrow> Some x | _ \<Rightarrow> None)"
    by (simp add: load_ServiceList_def load_def)
  from run call l u have run3:
    "(case err of Some e \<Rightarrow> (Inl e, ?s3)
      | None \<Rightarrow>
         (case load_ServiceList p ?s3 of
            None \<Rightarrow> (Inl nilPointerDereference, ?s3)
          | Some l \<Rightarrow>
              (case load_ServiceList ?q ?s3 of
                 None \<Rightarrow> (Inl nilPointerDereference, ?s3)
               | Some new \<Rightarrow>
                   (case ListServices_items D p ?q [0..<length (ServiceList_Items l)]
                           (store ?q (ServiceListObj (new\<lparr>ServiceList_Items :=
                               replicate (length (ServiceList_Items l)) zero_Service\<rparr>)) ?s3) of
                      (Some e, s4) \<Rightarrow> (Inl e, s4)
                    | (None, s4) \<Rightarrow> (Inr ?q, s4)))))
     = (Inr q, s')"
    by (simp add: ListServices_def DeepCopy_ServiceList_def alloc_def updateServingGvk_new)
  then have err: "err = None"
    by (simp split: option.splits)
  from run3 err obtain new where v: "v = ServiceListObj new"
    unfolding p3 q3 by (cases v) simp_all
  let ?new0 = "new\<lparr>ServiceList_Items := replicate (length (ServiceList_Items l)) zero_Service\<rparr>"
  let ?s4 = "store ?q (ServiceListObj ?new0) ?s3"
  from run3 err v have loop: "ListServices_items D p ?q [0..<length (ServiceList_Items l)] ?s4 = (None, s')"
    and q: "q = ?q"
    unfolding p3 q3 by (simp_all split: prod.splits option.splits)
  have p4: "load_ServiceList p ?s4 = Some l"
    using p by (simp add: load_ServiceList_Some store_def nth_append)
  have q4: "load_ServiceList ?q ?s4 = Some ?new0"
    by (simp add: load_ServiceList_Some store_def)
  have neq: "p \<noteq> ?q"
    using p by simp
  from ListServices_items_frame [OF loop p4 q4 neq]
  obtain l' where c: "cluster s' = cluster ?s4" and len: "length (heap ?s4) \<le> length (heap s')"
    and frame: "\<forall>a<length (heap ?s4). a \<noteq> ?q \<longrightarrow> heap s' ! a = heap ?s4 ! a"
    and l': "load_ServiceList ?q s' = Some l'"
      "length (ServiceList_Items l') = length (ServiceList_Items ?new0)"
    and updated: "\<forall>i\<in>set [0..<length (ServiceList_Items l)].
                 util_UpdateGroupVersionKindWithScheme D (ServiceObj (ServiceList_Items l ! i))
                   = (None, ServiceObj (ServiceList_Items l' ! i))"
    by blast
  have c1: "cluster s' = cluster s1"
    using c by (simp add: store_def)
  have f1: "\<forall>a<length (heap s1). heap s' ! a = heap s1 ! a"
  proof (intro allI impI)
    fix a assume a: "a < length (heap s1)"
    then have "heap s' ! a = heap ?s4 ! a"
      using frame by (simp add: store_def)
    also have "\<dots> = heap s1 ! a"
      using a by (simp add: store_def nth_append)
    finally show "heap s' ! a = heap s1 ! a" .
  qed
  have p': "load_ServiceList p s' = Some l"
    using p f1 len by (simp add: load_ServiceList_Some store_def)
  have n: "length (ServiceList_Items l') = length (ServiceList_Items l)"
    using l'(2) by simp
  have items: "\<forall>i<length (ServiceList_Items l).
                 util_UpdateGroupVersionKindWithScheme D (ServiceObj (ServiceList_Items l ! i))
                   = (None, ServiceObj (ServiceList_Items l' ! i))"
    using updated by simp
  from l p' l'(1) q c1 f1 n items show ?thesis
    by blast
qed

lemma load_RevisionList_Some:
  "(load_RevisionList p s = Some x) = (p < length (heap s) \<and> heap s ! p = RevisionListObj x)"
  by (simp add: load_RevisionList_def load_def split: runtime_Object.splits)

lemma load_Revision_Some:
  "(load_Revision p s = Some x) = (p < length (heap s) \<and> heap s ! p = RevisionObj x)"
  by (simp add: load_Revision_def load_def split: runtime_Object.splits)

lemma updateServingGvkForRevisionList_items_step:
  assumes run: "updateServingGvkForRevisionList_items D src dst (idx # rest) s = (None, s')"
    and src: "load_RevisionList src s = Some l"
    and dst: "load_RevisionList dst s = Some new"
  shows "\<exists>clone. idx < length (RevisionList_Items l) \<and> idx < length (RevisionList_Items new)
           \<and> util_UpdateGroupVersionKindWithScheme D (RevisionObj (RevisionList_Items l ! idx))
               = (None, RevisionObj clone)
           \<and> updateServingGvkForRevisionList_items D src dst rest
               (s\<lparr>heap := (heap s @ [RevisionObj clone])
                            [dst := RevisionListObj (new\<lparr>RevisionList_Items := (RevisionList_Items new)[idx := clone]\<rparr>)]\<rparr>)
               = (None, s')"
proof -
  obtain err v where u: "util_UpdateGroupVersionKindWithScheme D (RevisionObj (RevisionList_Items l ! idx)) = (err, v)"
    by (cases "util_UpdateGroupVersionKindWithScheme D (RevisionObj (RevisionList_Items l ! idx))")
  from dst have d: "dst < length (heap s)" "heap s ! dst = RevisionListObj new"
    by (simp_all add: load_RevisionList_Some)
  let ?s2 = "s\<lparr>heap := heap s @ [v]\<rparr>"
  have dst2: "load_RevisionList dst ?s2 = Some new"
    using d by (simp add: load_RevisionList_Some nth_append)
  have clone2: "load_Revision (length (heap s)) ?s2 = (case v of RevisionObj c \<Rightarrow> Some c | _ \<Rightarrow> None)"
    by (simp add: load_Revision_def load_def)
  from run src have idx: "idx < length (RevisionList_Items l)"
    by (simp split: if_splits)
  with run src u have run2:
    "(case err of Some e \<Rightarrow> (Some e, ?s2)
      | None \<Rightarrow>
         (case load_Revision (length (heap s)) ?s2 of
            None \<Rightarrow> (Some nilPointerDereference, ?s2)
          | Some clone \<Rightarrow>
              (case load_RevisionList dst ?s2 of
                 None \<Rightarrow> (Some nilPointerDereference, ?s2)
               | Some new \<Rightarrow>
                   if length (RevisionList_Items new) \<le> idx then (Some indexOutOfRange, ?s2)
                   else updateServingGvkForRevisionList_items D src dst rest
                          (store dst (RevisionListObj (new\<lparr>RevisionList_Items := (RevisionList_Items new)[idx := clone]\<rparr>)) ?s2))))
     = (None, s')"
    by (simp add: alloc_def updateServingGvk_new)
  then have err: "err = None"
    by (simp split: option.splits)
  from run2 err obtain clone where v: "v = RevisionObj clone"
    unfolding clone2 by (cases v) simp_all
  from run2 err v have "idx < length (RevisionList_Items new)
      \<and> updateServingGvkForRevisionList_items D src dst rest
          (store dst (RevisionListObj (new\<lparr>RevisionList_Items := (RevisionList_Items new)[idx := clone]\<rparr>)) ?s2)
        = (None, s')"
    unfolding clone2 dst2 by (simp split: if_splits)
  with idx u err v show ?thesis
    by (simp add: store_def)
qed

lemma updateServingGvkForRevisionList_items_frame:
  assumes "updateServingGvkForRevisionList_items D src dst idxs s = (None, s')"
    and "load_RevisionList src s = Some l"
    and "load_RevisionList dst s = Some new"
    and "src \<noteq> dst"
  shows "cluster s' = cluster s \<and> length (heap s) \<le> length (heap s')
       \<and> (\<forall>a<length (heap s). a \<noteq> dst \<longrightarrow> heap s' ! a = heap s ! a)
       \<and> (\<exists>new'. load_RevisionList dst s' = Some new'
             \<and> RevisionList_TypeMeta new' = RevisionList_TypeMeta new
             \<and> RevisionList_ListMeta new' = RevisionList_ListMeta new
             \<and> length (RevisionList_Items new') = length (RevisionList_Items new)
             \<and> (\<forall>i\<in>set idxs. util_UpdateGroupVersionKindWithScheme D (RevisionObj (RevisionList_Items l ! i))
                                 = (None, RevisionObj (RevisionList_Items new' ! i)))
             \<and> (\<forall>i. i \<notin> set idxs \<longrightarrow> RevisionList_Items new' ! i = RevisionList_Items new ! i))"
  using assms
proof (induction idxs arbitrary: s new)
  case Nil
  then show ?case by simp
next
  case (Cons idx rest)
  from updateServingGvkForRevisionList_items_step [OF Cons.prems(1) Cons.prems(2) Cons.prems(3)]
  obtain clone where idx: "idx < length (RevisionList_Items l)" "idx < length (RevisionList_Items new)"
    and u: "util_UpdateGroupVersionKindWithScheme D (RevisionObj (RevisionList_Items l ! idx)) = (None, RevisionObj clone)"
    and run: "updateServingGvkForRevisionList_items D src dst rest
               (s\<lparr>heap := (heap s @ [RevisionObj clone])
                            [dst := RevisionListObj (new\<lparr>RevisionList_Items := (RevisionList_Items new)[idx := clone]\<rparr>)]\<rparr>)
               = (None, s')"
    by blast
  let ?new3 = "new\<lparr>RevisionList_Items := (RevisionList_Items new)[idx := clone]\<rparr>"
  let ?s3 = "s\<lparr>heap := (heap s @ [RevisionObj clone])[dst := RevisionListObj ?new3]\<rparr>"
  from Cons.prems(2) have s: "src < length (heap s)" "heap s ! src = RevisionListObj l"
    by (simp_all add: load_RevisionList_Some)
  from Cons.prems(3) have d: "dst < length (heap s)"
    by (simp add: load_RevisionList_Some)
  have src3: "load_RevisionList src ?s3 = Some l"
    using s Cons.prems(4) by (simp add: load_RevisionList_Some nth_append)
  have dst3: "load_RevisionList dst ?s3 = Some ?new3"
    using d by (simp add: load_RevisionList_Some)
  from Cons.IH [OF run src3 dst3 Cons.prems(4)]
  obtain new' where cl: "cluster s' = cluster ?s3" and len: "length (heap ?s3) \<le> length (heap s')"
    and frame: "\<forall>a<length (heap ?s3). a \<noteq> dst \<longrightarrow> heap s' ! a = heap ?s3 ! a"
    and new': "load_RevisionList dst s' = Some new'"
      "RevisionList_TypeMeta new' = RevisionList_TypeMeta ?new3"
      "RevisionList_ListMeta new' = RevisionList_ListMeta ?new3"
      "length (RevisionList_Items new') = length (RevisionList_Items ?new3)"
    and updated: "\<forall>i\<in>set rest. util_UpdateGroupVersionKindWithScheme D (RevisionObj (RevisionList_Items l ! i))
                                 = (None, RevisionObj (RevisionList_Items new' ! i))"
    and kept: "\<forall>i. i \<notin> set rest \<longrightarrow> RevisionList_Items new' ! i = RevisionList_Items ?new3 ! i"
    by blast
  have c: "cluster s' = cluster s"
    using cl by simp
  have l: "length (heap s) \<le> length (heap s')"
    using len by simp
  have f: "\<forall>a<length (heap s). a \<noteq> dst \<longrightarrow> heap s' ! a = heap s ! a"
  proof (intro allI impI)
    fix a assume a: "a < length (heap s)" "a \<noteq> dst"
    then have "heap s' ! a = heap ?s3 ! a"
      using frame by simp
    also have "\<dots> = heap s ! a"
      using a by (simp add: nth_append)
    finally show "heap s' ! a = heap s ! a" .
  qed
  have at_idx: "util_UpdateGroupVersionKindWithScheme D (RevisionObj (RevisionList_Items l ! idx))
                  = (None, RevisionObj (RevisionList_Items new' ! idx))"
  proof (cases "idx \<in> set rest")
    case True
    then show ?thesis using updated by blast
  next
    case False
    then have "RevisionList_Items new' ! idx = clone"
      using kept idx(2) by simp
    then show ?thesis using u by simp
  qed
  have all: "\<forall>i\<in>set (idx # rest). util_UpdateGroupVersionKindWithScheme D (RevisionObj (RevisionList_Items l ! i))
                                 = (None, RevisionObj (RevisionList_Items new' ! i))"
    using at_idx updated by simp
  have k: "\<forall>i. i \<notin> set (idx # rest) \<longrightarrow> RevisionList_Items new' ! i = RevisionList_Items new ! i"
    using kept by simp
  have m: "RevisionList_TypeMeta new' = RevisionList_TypeMeta new"
    "RevisionList_ListMeta new' = RevisionList_ListMeta new"
    "length (RevisionList_Items new') = length (RevisionList_Items new)"
    using new' by simp_all
  from c l f new'(1) m all k show ?case
    by blast
qed

lemma updateServingGvkForRevisionList_success:
  assumes run: "updateServingGvkForRevisionList D p s1 = (Inr q, s')"
  shows "\<exists>l l'. load_RevisionList p s1 = Some l \<and> load_RevisionList p s' = Some l
           \<and> load_RevisionList q s' = Some l' \<and> q = length (heap s1)
           \<and> cluster s' = cluster s1
           \<and> (\<forall>a<length (heap s1). heap s' ! a = heap s1 ! a)
           \<and> length (RevisionList_Items l') = length (RevisionList_Items l)
           \<and> (\<forall>i<length (RevisionList_Items l).
                 util_UpdateGroupVersionKindWithScheme D (RevisionObj (RevisionList_Items l ! i))
                   = (None, RevisionObj (RevisionList_Items l' ! i)))"
proof -
  from run obtain l where l: "load_RevisionList p s1 = Some l"
    by (cases "load_RevisionList p s1") (simp_all add: updateServingGvkForRevisionList_def DeepCopy_RevisionList_def)
  then have p: "p < length (heap s1)" "heap s1 ! p = RevisionListObj l"
    by (simp_all add: load_RevisionList_Some)
  let ?q = "length (heap s1)"
  obtain err v where u: "util_UpdateGroupVersionKindWithScheme D (RevisionListObj l) = (err, v)"
    by (cases "util_UpdateGroupVersionKindWithScheme D (RevisionListObj l)")
  let ?s3 = "s1\<lparr>heap := heap s1 @ [v]\<rparr>"
  have p3: "load_RevisionList p ?s3 = Some l"
    using p by (simp add: load_RevisionList_Some nth_append)
  have q3: "load_RevisionList ?q ?s3 = (case v of RevisionListObj x \<Rightarrow> Some x | _ \<Rightarrow> None)"
    by (simp add: load_RevisionList_def load_def)
  from run l u have run3:
    "(case err of Some e \<Rightarrow> (Inl e, ?s3)
      | None \<Rightarrow>
         (case load_RevisionList p ?s3 of
            None \<Rightarrow> (Inl nilPointerDereference, ?s3)
          | Some l \<Rightarrow>
              (case load_RevisionList ?q ?s3 of
                 None \<Rightarrow> (Inl nilPointerDereference, ?s3)
               | Some new \<Rightarrow>
                   (case updateServingGvkForRevisionList_items D p ?q [0..<length (RevisionList_Items l)]
                           (store ?q (RevisionListObj (new\<lparr>RevisionList_Items :=
                               replicate (length (RevisionList_Items l)) zero_Revision\<rparr>)) ?s3) of
                      (Some e, s4) \<Rightarrow> (Inl e, s4)
                    | (None, s4) \<Rightarrow> (Inr ?q, s4)))))
     = (Inr q, s')"
    by (simp add: updateServingGvkForRevisionList_def DeepCopy_RevisionList_def alloc_def updateServingGvk_new)
  then have err: "err = None"
    by (simp split: option.splits)
  from run3 err obtain new where v: "v = RevisionListObj new"
    unfolding p3 q3 by (cases v) simp_all
  let ?new0 = "new\<lparr>RevisionList_Items := replicate (length (RevisionList_Items l)) zero_Revision\<rparr>"
  let ?s4 = "store ?q (RevisionListObj ?new0) ?s3"
  from run3 err v have loop: "updateServingGvkForRevisionList_items D p ?q [0..<length (RevisionList_Items l)] ?s4 = (None, s')"
    and q: "q = ?q"
    unfolding p3 q3 by (simp_all split: prod.splits option.splits)
  have p4: "load_RevisionList p ?s4 = Some l"
    using p by (simp add: load_RevisionList_Some store_def nth_append)
  have q4: "load_RevisionList ?q ?s4 = Some ?new0"
    by (simp add: load_RevisionList_Some store_def)
  have neq: "p \<noteq> ?q"
    using p by simp
  from updateServingGvkForRevisionList_items_frame [OF loop p4 q4 neq]
  obtain l' where c: "cluster s' = cluster ?s4" and len: "length (heap ?s4) \<le> length (heap s')"
    and frame: "\<forall>a<length (heap ?s4). a \<noteq> ?q \<longrightarrow> heap s' ! a = heap ?s4 ! a"
    and l': "load_RevisionList ?q s' = Some l'"
      "length (RevisionList_Items l') = length (RevisionList_Items ?new0)"
    and updated: "\<forall>i\<in>set [0..<length (RevisionList_Items l)].
                 util_UpdateGroupVersionKindWithScheme D (RevisionObj (RevisionList_Items l ! i))
                   = (None, RevisionObj (RevisionList_Items l' ! i))"
    by blast
  have c1: "cluster s' = cluster s1"
    using c by (simp add: store_def)
  have f1: "\<forall>a<length (heap s1). heap s' ! a = heap s1 ! a"
  proof (intro allI impI)
    fix a assume a: "a < length (heap s1)"
    then have "heap s' ! a = heap ?s4 ! a"
      using frame by (simp add: store_def)
    also have "\<dots> = heap s1 ! a"
      using a by (simp add: store_def nth_append)
    finally show "heap s' ! a = heap s1 ! a" .
  qed
  have p': "load_RevisionList p s' = Some l"
    using p f1 len by (simp add: load_RevisionList_Some store_def)
  have n: "length (RevisionList_Items l') = length (RevisionList_Items l)"
    using l'(2) by simp
  have items: "\<forall>i<length (RevisionList_Items l).
                 util_UpdateGroupVersionKindWithScheme D (RevisionObj (RevisionList_Items l ! i))
                   = (None, RevisionObj (RevisionList_Items l' ! i))"
    using updated by simp
  from l p' l'(1) q c1 f1 n items show ?thesis
    by blast
qed

lemma load_RouteList_Some:
  "(load_RouteList p s = Some x) = (p < length (heap s) \<and> heap s ! p = RouteListObj x)"
  by (simp add: load_RouteList_def load_def split: runtime_Object.splits)

lemma load_Route_Some:
  "(load_Route p s = Some x) = (p < length (heap s) \<and> heap s ! p = RouteObj x)"
  by (simp add: load_Route_def load_def split: runtime_Object.splits)

lemma updateServingGvkForRouteList_items_step:
  assumes run: "updateServingGvkForRouteList_items D src dst (idx # rest) s = (None, s')"
    and src: "load_RouteList src s = Some l"
    and dst: "load_RouteList dst s = Some new"
  shows "\<exists>clone. idx < length (RouteList_Items l) \<and> idx < length (RouteList_Items new)
           \<and> util_UpdateGroupVersionKindWithScheme D (RouteObj (RouteList_Items l ! idx))
               = (None, RouteObj clone)
           \<and> updateServingGvkForRouteList_items D src dst rest
               (s\<lparr>heap := (heap s @ [RouteObj clone])
                            [dst := RouteListObj (new\<lparr>RouteList_Items := (RouteList_Items new)[idx := clone]\<rparr>)]\<rparr>)
               = (None, s')"
proof -
  obtain err v where u: "util_UpdateGroupVersionKindWithScheme D (RouteObj (RouteList_Items l ! idx)) = (err, v)"
    by (cases "util_UpdateGroupVersionKindWithScheme D (RouteObj (RouteList_Items l ! idx))")
  from dst have d: "dst < length (heap s)" "heap s ! dst = RouteListObj new"
    by (simp_all add: load_RouteList_Some)
  let ?s2 = "s\<lparr>heap := heap s @ [v]\<rparr>"
  have dst2: "load_RouteList dst ?s2 = Some new"
    using d by (simp add: load_RouteList_Some nth_append)
  have clone2: "load_Route (length (heap s)) ?s2 = (case v of RouteObj c \<Rightarrow> Some c | _ \<Rightarrow> None)"
    by (simp add: load_Route_def load_def)
  from run src have idx: "idx < length (RouteList_Items l)"
    by (simp split: if_splits)
  with run src u have run2:
    "(case err of Some e \<Rightarrow> (Some e, ?s2)
      | None \<Rightarrow>
         (case load_Route (length (heap s)) ?s2 of
            None \<Rightarrow> (Some nilPointerDereference, ?s2)
          | Some clone \<Rightarrow>
              (case load_RouteList dst ?s2 of
                 None \<Rightarrow> (Some nilPointerDereference, ?s2)
               | Some new \<Rightarrow>
                   if length (RouteList_Items new) \<le> idx then (Some indexOutOfRange, ?s2)
                   else updateServingGvkForRouteList_items D src dst rest
                          (store dst (RouteListObj (new\<lparr>RouteList_Items := (RouteList_Items new)[idx := clone]\<rparr>)) ?s2))))
     = (None, s')"
    by (simp add: alloc_def updateServingGvk_new)
  then have err: "err = None"
    by (simp split: option.splits)
  from run2 err obtain clone where v: "v = RouteObj clone"
    unfolding clone2 by (cases v) simp_all
  from run2 err v have "idx < length (RouteList_Items new)
      \<and> updateServingGvkForRouteList_items D src dst rest
          (store dst (RouteListObj (new\<lparr>RouteList_Items := (RouteList_Items new)[idx := clone]\<rparr>)) ?s2)
        = (None, s')"
    unfolding clone2 dst2 by (simp split: if_splits)
  with idx u err v show ?thesis
    by (simp add: store_def)
qed

lemma updateServingGvkForRouteList_items_frame:
  assumes "updateServingGvkForRouteList_items D src dst idxs s = (None, s')"
    and "load_RouteList src s = Some l"
    and "load_RouteList dst s = Some new"
    and "src \<noteq> dst"
  shows "cluster s' = cluster s \<and> length (heap s) \<le> length (heap s')
       \<and> (\<forall>a<length (heap s). a \<noteq> dst \<longrightarrow> heap s' ! a = heap s ! a)
       \<and> (\<exists>new'. load_RouteList dst s' = Some new'
             \<and> RouteList_TypeMeta new' = RouteList_TypeMeta new
             \<and> RouteList_ListMeta new' = RouteList_ListMeta new
             \<and> length (RouteList_Items new') = length (RouteList_Items new)
             \<and> (\<forall>i\<in>set idxs. util_UpdateGroupVersionKindWithScheme D (RouteObj (RouteList_Items l ! i))
                                 = (None, RouteObj (RouteList_Items new' ! i)))
             \<and> (\<forall>i. i \<notin> set idxs \<longrightarrow> RouteList_Items new' ! i = RouteList_Items new ! i))"
  using assms
proof (induction idxs arbitrary: s new)
  case Nil
  then show ?case by simp
next
  case (Cons idx rest)
  from updateServingGvkForRouteList_items_step [OF Cons.prems(1) Cons.prems(2) Cons.prems(3)]
  obtain clone where idx: "idx < length (RouteList_Items l)" "idx < length (RouteList_Items new)"
    and u: "util_UpdateGroupVersionKindWithScheme D (RouteObj (RouteList_Items l ! idx)) = (None, RouteObj clone)"
    and run: "updateServingGvkForRouteList_items D src dst rest
               (s\<lparr>heap := (heap s @ [RouteObj clone])
                            [dst := RouteListObj (new\<lparr>RouteList_Items := (RouteList_Items new)[idx := clone]\<rparr>)]\<rparr>)
               = (None, s')"
    by blast
  let ?new3 = "new\<lparr>RouteList_Items := (RouteList_Items new)[idx := clone]\<rparr>"
  let ?s3 = "s\<lparr>heap := (heap s @ [RouteObj clone])[dst := RouteListObj ?new3]\<rparr>"
  from Cons.prems(2) have s: "src < length (heap s)" "heap s ! src = RouteListObj l"
    by (simp_all add: load_RouteList_Some)
  from Cons.prems(3) have d: "dst < length (heap s)"
    by (simp add: load_RouteList_Some)
  have src3: "load_RouteList src ?s3 = Some l"
    using s Cons.prems(4) by (simp add: load_RouteList_Some nth_append)
  have dst3: "load_RouteList dst ?s3 = Some ?new3"
    using d by (simp add: load_RouteList_Some)
  from Cons.IH [OF run src3 dst3 Cons.prems(4)]
  obtain new' where cl: "cluster s' = cluster ?s3" and len: "length (heap ?s3) \<le> length (heap s')"
    and frame: "\<forall>a<length (heap ?s3). a \<noteq> dst \<longrightarrow> heap s' ! a = heap ?s3 ! a"
    and new': "load_RouteList dst s' = Some new'"
      "RouteList_TypeMeta new' = RouteList_TypeMeta ?new3"
      "RouteList_ListMeta new' = RouteList_ListMeta ?new3"
      "length (RouteList_Items new') = length (RouteList_Items ?new3)"
    and updated: "\<forall>i\<in>set rest. util_UpdateGroupVersionKindWithScheme D (RouteObj (RouteList_Items l ! i))
                                 = (None, RouteObj (RouteList_Items new' ! i))"
    and kept: "\<forall>i. i \<notin> set rest \<longrightarrow> RouteList_Items new' ! i = RouteList_Items ?new3 ! i"
    by blast
  have c: "cluster s' = cluster s"
    using cl by simp
  have l: "length (heap s) \<le> length (heap s')"
    using len by simp
  have f: "\<forall>a<length (heap s). a \<noteq> dst \<longrightarrow> heap s' ! a = heap s ! a"
  proof (intro allI impI)
    fix a assume a: "a < length (heap s)" "a \<noteq> dst"
    then have "heap s' ! a = heap ?s3 ! a"
      using frame by simp
    also have "\<dots> = heap s ! a"
      using a by (simp add: nth_append)
    finally show "heap s' ! a = heap s ! a" .
  qed
  have at_idx: "util_UpdateGroupVersionKindWithScheme D (RouteObj (RouteList_Items l ! idx))
                  = (None, RouteObj (RouteList_Items new' ! idx))"
  proof (cases "idx \<in> set rest")
    case True
    then show ?thesis using updated by blast
  next
    case False
    then have "RouteList_Items new' ! idx = clone"
      using kept idx(2) by simp
    then show ?thesis using u by simp
  qed
  have all: "\<forall>i\<in>set (idx # rest). util_UpdateGroupVersionKindWithScheme D (RouteObj (RouteList_Items l ! i))
                                 = (None, RouteObj (RouteList_Items new' ! i))"
    using at_idx updated by simp
  have k: "\<forall>i. i \<notin> set (idx # rest) \<longrightarrow> RouteList_Items new' ! i = RouteList_Items new ! i"
    using kept by simp
  have m: "RouteList_TypeMeta new' = RouteList_TypeMeta new"
    "RouteList_ListMeta new' = RouteList_ListMeta new"
    "length (RouteList_Items new') = length (RouteList_Items new)"
    using new' by simp_all
  from c l f new'(1) m all k show ?case
    by blast
qed

lemma updateServingGvkForRouteList_success:
  assumes run: "updateServingGvkForRouteList D p s1 = (Inr q, s')"
  shows "\<exists>l l'. load_RouteList p s1 = Some l \<and> load_RouteList p s' = Some l
           \<and> load_RouteList q s' = Some l' \<and> q = length (heap s1)
           \<and> cluster s' = cluster s1
           \<and> (\<forall>a<length (heap s1). heap s' ! a = heap s1 ! a)
           \<and> length (RouteList_Items l') = length (RouteList_Items l)
           \<and> (\<forall>i<length (RouteList_Items l).
                 util_UpdateGroupVersionKindWithScheme D (RouteObj (RouteList_Items l ! i))
                   = (None, RouteObj (RouteList_Items l' ! i)))"
proof -
  from run obtain l where l: "load_RouteList p s1 = Some l"
    by (cases "load_RouteList p s1") (simp_all add: updateServingGvkForRouteList_def DeepCopy_RouteList_def)
  then have p: "p < length (heap s1)" "heap s1 ! p = RouteListObj l"
    by (simp_all add: load_RouteList_Some)
  let ?q = "length (heap s1)"
  obtain err v where u: "util_UpdateGroupVersionKindWithScheme D (RouteListObj l) = (err, v)"
    by (cases "util_UpdateGroupVersionKindWithScheme D (RouteListObj l)")
  let ?s3 = "s1\<lparr>heap := heap s1 @ [v]\<rparr>"
  have p3: "load_RouteList p ?s3 = Some l"
    using p by (simp add: load_RouteList_Some nth_append)
  have q3: "load_RouteList ?q ?s3 = (case v of RouteListObj x \<Rightarrow> Some x | _ \<Rightarrow> None)"
    by (simp add: load_RouteList_def load_def)
  from run l u have run3:
    "(case err of Some e \<Rightarrow> (Inl e, ?s3)
      | None \<Rightarrow>
         (case load_RouteList p ?s3 of
            None \<Rightarrow> (Inl nilPointerDereference, ?s3)
          | Some l \<Rightarrow>
              (case load_RouteList ?q ?s3 of
                 None \<Rightarrow> (Inl nilPointerDereference, ?s3)
               | Some new \<Rightarrow>
                   (case updateServingGvkForRouteList_items D p ?q [0..<length (RouteList_Items l)]
                           (store ?q (RouteListObj (new\<lparr>RouteList_Items :=
                               replicate (length (RouteList_Items l)) zero_Route\<rparr>)) ?s3) of
                      (Some e, s4) \<Rightarrow> (Inl e, s4)
                    | (None, s4) \<Rightarrow> (Inr ?q, s4)))))
     = (Inr q, s')"
    by (simp add: updateServingGvkForRouteList_def DeepCopy_RouteList_def alloc_def updateServingGvk_new)
  then have err: "err = None"
    by (simp split: option.splits)
  from run3 err obtain new where v: "v = RouteListObj new"
    unfolding p3 q3 by (cases v) simp_all
  let ?new0 = "new\<lparr>RouteList_Items := replicate (length (RouteList_Items l)) zero_Route\<rparr>"
  let ?s4 = "store ?q (RouteListObj ?new0) ?s3"
  from run3 err v have loop: "updateServingGvkForRouteList_items D p ?q [0..<length (RouteList_Items l)] ?s4 = (None, s')"
    and q: "q = ?q"
    unfolding p3 q3 by (simp_all split: prod.splits option.splits)
  have p4: "load_RouteList p ?s4 = Some l"
    using p by (simp add: load_RouteList_Some store_def nth_append)
  have q4: "load_RouteList ?q ?s4 = Some ?new0"
    by (simp add: load_RouteList_Some store_def)
  have neq: "p \<noteq> ?q"
    using p by simp
  from updateServingGvkForRouteList_items_frame [OF loop p4 q4 neq]
  obtain l' where c: "cluster s' = cluster ?s4" and len: "length (heap ?s4) \<le> length (heap s')"
    and frame: "\<forall>a<length (heap ?s4). a \<noteq> ?q \<longrightarrow> heap s' ! a = heap ?s4 ! a"
    and l': "load_RouteList ?q s' = Some l'"
      "length (RouteList_Items l') = length (RouteList_Items ?new0)"
    and updated: "\<forall>i\<in>set [0..<length (RouteList_Items l)].
                 util_UpdateGroupVersionKindWithScheme D (RouteObj (RouteList_Items l ! i))
                   = (None, RouteObj (RouteList_Items l' ! i))"
    by blast
  have c1: "cluster s' = cluster s1"
    using c by (simp add: store_def)
  have f1: "\<forall>a<length (heap s1). heap s' ! a = heap s1 ! a"
  proof (intro allI impI)
    fix a assume a: "a < length (heap s1)"
    then have "heap s' ! a = heap ?s4 ! a"
      using frame by (simp add: store_def)
    also have "\<dots> = heap s1 ! a"
      using a by (simp add: store_def nth_append)
    finally show "heap s' ! a = heap s1 ! a" .
  qed
  have p': "load_RouteList p s' = Some l"
    using p f1 len by (simp add: load_RouteList_Some store_def)
  have n: "length (RouteList_Items l') = length (RouteList_Items l)"
    using l'(2) by simp
  have items: "\<forall>i<length (RouteList_Items l).
                 util_UpdateGroupVersionKindWithScheme D (RouteObj (RouteList_Items l ! i))
                   = (None, RouteObj (RouteList_Items l' ! i))"
    using updated by simp
  from l p' l'(1) q c1 f1 n items show ?thesis
    by blast
qed

lemma ListRevisions_success:
  assumes call: "Revisions_List (client cl) (namespace cl) (toListOptions D config) s = (Inr p, s1)"
    and run: "ListRevisions D cl config s = (Inr q, s')"
  shows "updateServingGvkForRevisionList D p s1 = (Inr q, s')"
  using assms by (simp add: ListRevisions_def)

lemma ListRoutes_success:
  assumes call: "Routes_List (client cl) (namespace cl) (toListOptions D config) s = (Inr p, s1)"
    and run: "ListRoutes D cl config s = (Inr q, s')"
  shows "updateServingGvkForRouteList D p s1 = (Inr q, s')"
  using assms by (simp add: ListRoutes_def)

text \<open>
  Claim C10. When \<open>ListServices\<close>, \<open>ListRevisions\<close> or \<open>ListRoutes\<close> succeeds, with
  \<open>p\<close> the list the API client returned in state \<open>s1\<close> and \<open>q\<close> the list the facade
  returns in state \<open>s'\<close>: \<open>q\<close> is a new object; the list at \<open>p\<close> is the same in \<open>s'\<close>
  as in \<open>s1\<close>, as is every object that existed in \<open>s1\<close>, and the cluster; the list
  at \<open>q\<close> has as many items as the list at \<open>p\<close>, and its item at each index is what
  \<open>util.UpdateGroupVersionKindWithScheme\<close> made of a copy of the item of \<open>p\<close> at the
  same index.
\<close>

theorem List_returns_updated_copies:
  "(\<forall>p s1 q s'.
      Services_List (client cl) (namespace cl) (toListOptions D config) s = (Inr p, s1)
      \<and> ListServices D cl config s = (Inr q, s') \<longrightarrow>
      (\<exists>l l'. load_ServiceList p s1 = Some l \<and> load_ServiceList p s' = Some l
           \<and> load_ServiceList q s' = Some l' \<and> q = length (heap s1)
           \<and> cluster s' = cluster s1
           \<and> (\<forall>a<length (heap s1). heap s' ! a = heap s1 ! a)
           \<and> length (ServiceList_Items l') = length (ServiceList_Items l)
           \<and> (\<forall>i<length (ServiceList_Items l).
                 util_UpdateGroupVersionKindWithScheme D (ServiceObj (ServiceList_Items l ! i))
                   = (None, ServiceObj (ServiceList_Items l' ! i)))))
   \<and> (\<forall>p s1 q s'.
      Revisions_List (client cl) (namespace cl) (toListOptions D config) s = (Inr p, s1)
      \<and> ListRevisions D cl config s = (Inr q, s') \<longrightarrow>
      (\<exists>l l'. load_RevisionList p s1 = Some l \<and> load_RevisionList p s' = Some l
           \<and> load_RevisionList q s' = Some l' \<and> q = length (heap s1)
           \<and> cluster s' = cluster s1
           \<and> (\<forall>a<length (heap s1). heap s' ! a = heap s1 ! a)
           \<and> length (RevisionList_Items l') = length (RevisionList_Items l)
           \<and> (\<forall>i<length (RevisionList_Items l).
                 util_UpdateGroupVersionKindWithScheme D (RevisionObj (RevisionList_Items l ! i))
                   = (None, RevisionObj (RevisionList_Items l' ! i)))))
   \<and> (\<forall>p s1 q s'.
      Routes_List (client cl) (namespace cl) (toListOptions D config) s = (Inr p, s1)
      \<and> ListRoutes D cl config s = (Inr q, s') \<longrightarrow>
      (\<exists>l l'. load_RouteList p s1 = Some l \<and> load_RouteList p s' = Some l
           \<and> load_RouteList q s' = Some l' \<and> q = length (heap s1)
           \<and> cluster s' = cluster s1
           \<and> (\<forall>a<length (heap s1). heap s' ! a = heap s1 ! a)
           \<and> length (RouteList_Items l') = length (RouteList_Items l)
           \<and> (\<forall>i<length (RouteList_Items l).
                 util_UpdateGroupVersionKindWithScheme D (RouteObj (RouteList_Items l ! i))
                   = (None, RouteObj (RouteList_Items l' ! i)))))"
proof (intro conjI allI impI)
  fix p s1 q s'
  assume "Services_List (client cl) (namespace cl) (toListOptions D config) s = (Inr p, s1)
      \<and> ListServices D cl config s = (Inr q, s')"
  then show "\<exists>l l'. load_ServiceList p s1 = Some l \<and> load_ServiceList p s' = Some l
           \<and> load_ServiceList q s' = Some l' \<and> q = length (heap s1)
           \<and> cluster s' = cluster s1
           \<and> (\<forall>a<length (heap s1). heap s' ! a = heap s1 ! a)
           \<and> length (ServiceList_Items l') = length (ServiceList_Items l)
           \<and> (\<forall>i<length (ServiceList_Items l).
                 util_UpdateGroupVersionKindWithScheme D (ServiceObj (ServiceList_Items l ! i))
                   = (None, ServiceObj (ServiceList_Items l' ! i)))"
    using ListServices_success [of cl D config s p s1 q s'] by blast
next
  fix p s1 q s'
  assume "Revisions_List (client cl) (namespace cl) (toListOptions D config) s = (Inr p, s1)
      \<and> ListRevisions D cl config s = (Inr q, s')"
  then have "updateServingGvkForRevisionList D p s1 = (Inr q, s')"
    using ListRevisions_success by blast
  then show "\<exists>l l'. load_RevisionList p s1 = Some l \<and> load_RevisionList p s' = Some l
           \<and> load_RevisionList q s' = Some l' \<and> q = length (heap s1)
           \<and> cluster s' = cluster s1
           \<and> (\<forall>a<length (heap s1). heap s' ! a = heap s1 ! a)
           \<and> length (RevisionList_Items l') = length (RevisionList_Items l)
           \<and> (\<forall>i<length (RevisionList_Items l).
                 util_UpdateGroupVersionKindWithScheme D (RevisionObj (RevisionList_Items l ! i))
                   = (None, RevisionObj (RevisionList_Items l' ! i)))"
    by (rule updateServingGvkForRevisionList_success)
next
  fix p s1 q s'
  assume "Routes_List (client cl) (namespace cl) (toListOptions D config) s = (Inr p, s1)
      \<and> ListRoutes D cl config s = (Inr q, s')"
  then have "updateServingGvkForRouteList D p s1 = (Inr q, s')"
    using ListRoutes_success by blast
  then show "\<exists>l l'. load_RouteList p s1 = Some l \<and> load_RouteList p s' = Some l
           \<and> load_RouteList q s' = Some l' \<and> q = length (heap s1)
           \<and> cluster s' = cluster s1
           \<and> (\<forall>a<length (heap s1). heap s' ! a = heap s1 ! a)
           \<and> length (RouteList_Items l') = length (RouteList_Items l)
           \<and> (\<forall>i<length (RouteList_Items l).
                 util_UpdateGroupVersionKindWithScheme D (RouteObj (RouteList_Items l ! i))
                   = (None, RouteObj (RouteList_Items l' ! i)))"
    by (rule updateServingGvkForRouteList_success)
qed

lemmas fake_list_defs =
  fake_lists_def fake_ServiceList_def fake_RevisionList_def fake_RouteList_def fake_route_def
  toListOptions_def DeepCopy_ServiceList_def DeepCopy_RevisionList_def DeepCopy_RouteList_def
  load_ServiceList_def load_RevisionList_def load_RouteList_def
  load_Service_def load_Revision_def load_Route_def
  zero_Service_def zero_Revision_def zero_Route_def zero_TypeMeta_def zero_ObjectMeta_def
  zero_RevisionSpec_def

theorem List_returns_updated_copies_witness:
  "fst (ListServices fakeImported fakeKnServingClient [] fake_lists) = Inr 3
   \<and> load_ServiceList 0 (snd (ListServices fakeImported fakeKnServingClient [] fake_lists))
       = Some fake_ServiceList
   \<and> (\<exists>l'. load_ServiceList 3 (snd (ListServices fakeImported fakeKnServingClient [] fake_lists)) = Some l'
          \<and> length (ServiceList_Items l') = 2)
   \<and> fst (ListRevisions fakeImported fakeKnServingClient [] fake_lists) = Inr 3
   \<and> load_RevisionList 1 (snd (ListRevisions fakeImported fakeKnServingClient [] fake_lists))
       = Some fake_RevisionList
   \<and> (\<exists>l'. load_RevisionList 3 (snd (ListRevisions fakeImported fakeKnServingClient [] fake_lists)) = Some l'
          \<and> length (RevisionList_Items l') = 2)
   \<and> fst (ListRoutes fakeImported fakeKnServingClient [] fake_lists) = Inr 3
   \<and> load_RouteList 2 (snd (ListRoutes fakeImported fakeKnServingClient [] fake_lists))
       = Some fake_RouteList
   \<and> (\<exists>l'. load_RouteList 3 (snd (ListRoutes fakeImported fakeKnServingClient [] fake_lists)) = Some l'
          \<and> length (RouteList_Items l') = 2)"
proof -
  let ?D = fakeImported and ?cl = fakeKnServingClient
  note all = List_returns_updated_copies [of ?cl ?D "[]" fake_lists]
  have s0: "Services_List (client ?cl) (namespace ?cl) (toListOptions ?D []) fake_lists
              = (Inr 0, fake_log ''list services'' fake_lists)"
    by (simp add: fakeKnServingClient_def fakeClient_def)
  have s1: "fst (ListServices ?D ?cl [] fake_lists) = Inr 3"
    by (simp add: ListServices_def fake_list_defs fake_defs)
  have s2: "load_ServiceList 0 (fake_log ''list services'' fake_lists) = Some fake_ServiceList"
    by (simp add: load_ServiceList_def load_def fake_log_def fake_lists_def)
  have s3: "length (ServiceList_Items fake_ServiceList) = 2"
    by (simp add: fake_ServiceList_def)
  have s4: "ListServices ?D ?cl [] fake_lists = (Inr 3, snd (ListServices ?D ?cl [] fake_lists))"
    using s1 by (simp add: prod_eq_iff)
  from all [THEN conjunct1, rule_format, OF conjI [OF s0 s4]]
  obtain l l' where "load_ServiceList 0 (fake_log ''list services'' fake_lists) = Some l"
    and "load_ServiceList 0 (snd (ListServices ?D ?cl [] fake_lists)) = Some l"
    and "load_ServiceList 3 (snd (ListServices ?D ?cl [] fake_lists)) = Some l'"
    and "length (ServiceList_Items l') = length (ServiceList_Items l)"
    by blast
  with s2 s3 have services:
    "load_ServiceList 0 (snd (ListServices ?D ?cl [] fake_lists)) = Some fake_ServiceList
     \<and> (\<exists>l'. load_ServiceList 3 (snd (ListServices ?D ?cl [] fake_lists)) = Some l'
          \<and> length (ServiceList_Items l') = 2)"
    by simp
  have r0: "Revisions_List (client ?cl) (namespace ?cl) (toListOptions ?D []) fake_lists
              = (Inr 1, fake_log ''list revisions'' fake_lists)"
    by (simp add: fakeKnServingClient_def fakeClient_def)
  have r1: "fst (ListRevisions ?D ?cl [] fake_lists) = Inr 3"
    by (simp add: ListRevisions_def updateServingGvkForRevisionList_def fake_list_defs fake_defs)
  have r2: "load_RevisionList 1 (fake_log ''list revisions'' fake_lists) = Some fake_RevisionList"
    by (simp add: load_RevisionList_def load_def fake_log_def fake_lists_def)
  have r3: "length (RevisionList_Items fake_RevisionList) = 2"
    by (simp add: fake_RevisionList_def)
  have r4: "ListRevisions ?D ?cl [] fake_lists = (Inr 3, snd (ListRevisions ?D ?cl [] fake_lists))"
    using r1 by (simp add: prod_eq_iff)
  from all [THEN conjunct2 [THEN conjunct1], rule_format, OF conjI [OF r0 r4]]
  obtain l l' where "load_RevisionList 1 (fake_log ''list revisions'' fake_lists) = Some l"
    and "load_RevisionList 1 (snd (ListRevisions ?D ?cl [] fake_lists)) = Some l"
    and "load_RevisionList 3 (snd (ListRevisions ?D ?cl [] fake_lists)) = Some l'"
    and "length (RevisionList_Items l') = length (RevisionList_Items l)"
    by blast
  with r2 r3 have revisions:
    "load_RevisionList 1 (snd (ListRevisions ?D ?cl [] fake_lists)) = Some fake_RevisionList
     \<and> (\<exists>l'. load_RevisionList 3 (snd (ListRevisions ?D ?cl [] fake_lists)) = Some l'
          \<and> length (RevisionList_Items l') = 2)"
    by simp
  have t0: "Routes_List (client ?cl) (namespace ?cl) (toListOptions ?D []) fake_lists
              = (Inr 2, fake_log ''list routes'' fake_lists)"
    by (simp add: fakeKnServingClient_def fakeClient_def)
  have t1: "fst (ListRoutes ?D ?cl [] fake_lists) = Inr 3"
    by (simp add: ListRoutes_def updateServingGvkForRouteList_def fake_list_defs fake_defs)
  have t2: "load_RouteList 2 (fake_log ''list routes'' fake_lists) = Some fake_RouteList"
    by (simp add: load_RouteList_def load_def fake_log_def fake_lists_def)
  have t3: "length (RouteList_Items fake_RouteList) = 2"
    by (simp add: fake_RouteList_def)
  have t4: "ListRoutes ?D ?cl [] fake_lists = (Inr 3, snd (ListRoutes ?D ?cl [] fake_lists))"
    using t1 by (simp add: prod_eq_iff)
  from all [THEN conjunct2 [THEN conjunct2], rule_format, OF conjI [OF t0 t4]]
  obtain l l' where "load_RouteList 2 (fake_log ''list routes'' fake_lists) = Some l"
    and "load_RouteList 2 (snd (ListRoutes ?D ?cl [] fake_lists)) = Some l"
    and "load_RouteList 3 (snd (ListRoutes ?D ?cl [] fake_lists)) = Some l'"
    and "length (RouteList_Items l') = length (RouteList_Items l)"
    by blast
  with t2 t3 have routes:
    "load_RouteList 2 (snd (ListRoutes ?D ?cl [] fake_lists)) = Some fake_RouteList
     \<and> (\<exists>l'. load_RouteList 3 (snd (ListRoutes ?D ?cl [] fake_lists)) = Some l'
          \<and> length (RouteList_Items l') = 2)"
    by simp
  from s1 services r1 revisions t1 routes show ?thesis
    by blast
qed

subsection \<open>The readiness waiter\<close>

lemma fold_max_ge_start: "a \<le> fold max ids (a::nat)"
proof (induction ids arbitrary: a)
  case Nil
  show ?case by simp
next
  case (Cons y ids)
  have "a \<le> max y a"
    by simp
  also have "\<dots> \<le> fold max ids (max y a)"
    by (rule Cons.IH)
  finally show ?case
    by simp
qed

lemma fold_max_ge_member: "x \<in> set ids \<Longrightarrow> x \<le> fold max ids (a::nat)"
proof (induction ids arbitrary: a)
  case Nil
  then show ?case by simp
next
  case (Cons y ids)
  show ?case
  proof (cases "x = y")
    case True
    have "x \<le> max y a"
      using True by simp
    also have "\<dots> \<le> fold max ids (max y a)"
      by (rule fold_max_ge_start)
    finally show ?thesis
      by simp
  next
    case False
    with Cons.prems have "x \<in> set ids"
      by simp
    then show ?thesis
      using Cons.IH by simp
  qed
qed

lemma freshId_fresh: "freshId ids \<notin> set ids"
proof
  assume "freshId ids \<in> set ids"
  then have "freshId ids \<le> fold max ids 0"
    by (rule fold_max_ge_member)
  then show False
    by (simp add: freshId_def)
qed

lemma Watch_error:
  assumes "Watch name w = (Inl err, w1)"
  shows "live w1 = live w \<and> opened w1 = opened w \<and> closed w1 = closed w
       \<and> watch_calls w1 = Suc (watch_calls w) \<and> feeds w1 = tl (feeds w)"
  using assms by (auto simp add: Watch_def split: list.splits sum.splits)

lemma Watch_stream:
  assumes "Watch name w = (Inr (sub, stream), w1)"
  shows "live w1 = sub # live w \<and> sub \<notin> set (live w) \<and> opened w1 = Suc (opened w)
       \<and> closed w1 = closed w \<and> watch_calls w1 = Suc (watch_calls w)
       \<and> feeds w = Inr stream # feeds w1"
  using assms freshId_fresh [of "live w"]
  by (auto simp add: Watch_def split: list.splits sum.splits)

lemma Watch_Stop:
  assumes "Watch name w = (Inr (sub, stream), w1)"
  shows "live (Stop sub w1) = live w \<and> opened (Stop sub w1) = Suc (opened w)
       \<and> closed (Stop sub w1) = Suc (closed w)
       \<and> watch_calls (Stop sub w1) = Suc (watch_calls w)
       \<and> feeds w = Inr stream # feeds (Stop sub w1)"
  using Watch_stream [OF assms] by (simp add: Stop_def)

lemma checkOnce_world: "snd (checkOnce wt name w) = w"
  by (simp add: checkOnce_def split: option.splits sum.splits Verdict.splits)

lemma consume_budget:
  "consume wt name events closes budget seen = StreamBroken budget' seen' \<Longrightarrow> budget' \<le> budget"
proof (induction events arbitrary: budget seen)
  case Nil
  then show ?case
    by (auto split: option.splits if_splits)
next
  case (Cons e events)
  obtain d ev where e: "e = (d, ev)"
    by (cases e)
  show ?case
  proof (cases "budget \<le> d \<or> Event_Kind ev = ERROR")
    case True
    with Cons.prems e show ?thesis
      by (auto split: if_splits)
  next
    case False
    with Cons.prems e obtain seen'' where "consume wt name events closes (budget - d) seen'' = StreamBroken budget' seen'"
      by (auto split: if_splits sum.splits Verdict.splits)
    from Cons.IH [OF this] show ?thesis
      by simp
  qed
qed

text \<open>
  Claim C8. For every call of \<open>Wait\<close> and every outcome, the subscriptions that are
  open when \<open>Wait\<close> returns are those that were open when it was called, and the call
  closed as many subscriptions as it opened: no subscription it made is left open.
\<close>

theorem Wait_releases_subscription:
  "live (snd (Wait wt name timeout w)) = live w
   \<and> opened (snd (Wait wt name timeout w)) + closed w
       = closed (snd (Wait wt name timeout w)) + opened w"
proof (cases "timeout = 0")
  case True
  then show ?thesis
    by (simp add: Wait_def checkOnce_world)
next
  case False
  show ?thesis
  proof (cases "Watch name w")
    case (Pair r1 w1)
    show ?thesis
    proof (cases r1)
      case (Inl err)
      with Pair False Watch_error [of name w err w1] show ?thesis
        by (simp add: Wait_def)
    next
      case (Inr ss)
      obtain sub1 stream1 where ss: "ss = (sub1, stream1)"
        by (cases ss)
      note first = Watch_Stop [of name w sub1 stream1 w1]
      show ?thesis
      proof (cases "consume wt name (Stream_Events stream1) (Stream_Closes stream1) timeout None")
        case (Decided result)
        with Pair Inr ss False first show ?thesis
          by (simp add: Wait_def)
      next
        case (DeadlineElapsed seen)
        with Pair Inr ss False first show ?thesis
          by (simp add: Wait_def)
      next
        case (StreamBroken budget seen)
        show ?thesis
        proof (cases "Watch name (Stop sub1 w1)")
          case again: (Pair r2 w2)
          show ?thesis
          proof (cases r2)
            case (Inl err)
            with Pair Inr ss False first StreamBroken again
              Watch_error [of name "Stop sub1 w1" err w2]
            show ?thesis
              by (simp add: Wait_def)
          next
            case r2: (Inr ss2)
            obtain sub2 stream2 where ss2: "ss2 = (sub2, stream2)"
              by (cases ss2)
            note second = Watch_Stop [of name "Stop sub1 w1" sub2 stream2 w2]
            from Pair Inr ss False first StreamBroken again r2 ss2 second
            show ?thesis
              by (cases "consume wt name (Stream_Events stream2) (Stream_Closes stream2) budget seen")
                 (simp_all add: Wait_def)
          qed
        qed
      qed
    qed
  qed
qed

theorem Wait_releases_subscription_witness:
  "fst (Wait \<lparr>Waiter_Kind = ''service'', Waiter_Extractor = serviceConditionExtractor\<rparr> ''hello'' 10
     \<lparr>objects = [],
      feeds = [Inr \<lparr>Stream_Events =
                      [(1, \<lparr>Event_Kind = ADDED, Event_Name = ''hello'',
                            Event_Object = ServiceObj (fake_service '''' ''img:1'' '''')\<rparr>),
                       (2, \<lparr>Event_Kind = MODIFIED, Event_Name = ''hello'',
                            Event_Object = ServiceObj ((fake_service '''' ''img:1'' '''')
                              \<lparr>Service_Status := \<lparr>Service_Conditions =
                                   [\<lparr>Condition_Type = ''Ready'', Condition_Status = ConditionTrue,
                                     Condition_Reason = '''', Condition_Message = ''''\<rparr>],
                                 LatestReadyRevisionName = ''hello-1'',
                                 LatestCreatedRevisionName = ''hello-1''\<rparr>\<rparr>)\<rparr>)],
                    Stream_Closes = None\<rparr>],
      live = [7], watch_calls = 0, opened = 0, closed = 0\<rparr>) = Success
   \<and> live (snd (Wait \<lparr>Waiter_Kind = ''service'', Waiter_Extractor = serviceConditionExtractor\<rparr> ''hello'' 10
     \<lparr>objects = [],
      feeds = [Inr \<lparr>Stream_Events =
                      [(1, \<lparr>Event_Kind = ADDED, Event_Name = ''hello'',
                            Event_Object = ServiceObj (fake_service '''' ''img:1'' '''')\<rparr>),
                       (2, \<lparr>Event_Kind = MODIFIED, Event_Name = ''hello'',
                            Event_Object = ServiceObj ((fake_service '''' ''img:1'' '''')
                              \<lparr>Service_Status := \<lparr>Service_Conditions =
                                   [\<lparr>Condition_Type = ''Ready'', Condition_Status = ConditionTrue,
                                     Condition_Reason = '''', Condition_Message = ''''\<rparr>],
                                 LatestReadyRevisionName = ''hello-1'',
                                 LatestCreatedRevisionName = ''hello-1''\<rparr>\<rparr>)\<rparr>)],
                    Stream_Closes = None\<rparr>],
      live = [7], watch_calls = 0, opened = 0, closed = 0\<rparr>)) = [7]
   \<and> fst (Wait \<lparr>Waiter_Kind = ''service'', Waiter_Extractor = serviceConditionExtractor\<rparr> ''hello'' 10
     \<lparr>objects = [], feeds = [Inr \<lparr>Stream_Events = [], Stream_Closes = None\<rparr>],
      live = [7], watch_calls = 0, opened = 0, closed = 0\<rparr>) = TimedOut None
   \<and> live (snd (Wait \<lparr>Waiter_Kind = ''service'', Waiter_Extractor = serviceConditionExtractor\<rparr> ''hello'' 10
     \<lparr>objects = [], feeds = [Inr \<lparr>Stream_Events = [], Stream_Closes = None\<rparr>],
      live = [7], watch_calls = 0, opened = 0, closed = 0\<rparr>)) = [7]"
proof -
  let ?wt = "\<lparr>Waiter_Kind = ''service'', Waiter_Extractor = serviceConditionExtractor\<rparr>"
  let ?w1 = "\<lparr>objects = [],
      feeds = [Inr \<lparr>Stream_Events =
                      [(1, \<lparr>Event_Kind = ADDED, Event_Name = ''hello'',
                            Event_Object = ServiceObj (fake_service '''' ''img:1'' '''')\<rparr>),
                       (2, \<lparr>Event_Kind = MODIFIED, Event_Name = ''hello'',
                            Event_Object = ServiceObj ((fake_service '''' ''img:1'' '''')
                              \<lparr>Service_Status := \<lparr>Service_Conditions =
                                   [\<lparr>Condition_Type = ''Ready'', Condition_Status = ConditionTrue,
                                     Condition_Reason = '''', Condition_Message = ''''\<rparr>],
                                 LatestReadyRevisionName = ''hello-1'',
                                 LatestCreatedRevisionName = ''hello-1''\<rparr>\<rparr>)\<rparr>)],
                    Stream_Closes = None\<rparr>],
      live = [7], watch_calls = 0, opened = 0, closed = 0\<rparr>"
  let ?w2 = "\<lparr>objects = [], feeds = [Inr \<lparr>Stream_Events = [], Stream_Closes = None\<rparr>],
      live = [7], watch_calls = 0, opened = 0, closed = 0\<rparr>"
  have ready: "fst (Wait ?wt ''hello'' 10 ?w1) = Success"
    by (simp add: Wait_def Watch_def serviceConditionExtractor_def verdict_def
        IsReady_def IsFailed_def conditionOf_def fake_service_def)
  have timeout: "fst (Wait ?wt ''hello'' 10 ?w2) = TimedOut None"
    by (simp add: Wait_def Watch_def)
  from Wait_releases_subscription [of ?wt "''hello''" 10 ?w1]
  have l1: "live (snd (Wait ?wt ''hello'' 10 ?w1)) = [7]"
    by simp
  from Wait_releases_subscription [of ?wt "''hello''" 10 ?w2]
  have l2: "live (snd (Wait ?wt ''hello'' 10 ?w2)) = [7]"
    by simp
  from ready l1 timeout l2 show ?thesis
    by (intro conjI)
qed

text \<open>
  Claim C7. Within one call of \<open>Wait\<close> with a positive timeout, when the first
  subscription ends with a stream error or closure before the deadline, \<open>Watch\<close> is
  called exactly once more, whatever follows, and the second subscription runs on the
  budget that remained, which is no more than the timeout. When the second
  subscription ends with a stream error too, the result is \<open>Errored\<close> and \<open>Watch\<close> is
  not called a third time.
\<close>

theorem Wait_resubscribes_once:
  assumes "0 < timeout"
    and "feeds w = Inr stream1 # rest"
    and "consume wt name (Stream_Events stream1) (Stream_Closes stream1) timeout None
           = StreamBroken budget seen"
  shows "watch_calls (snd (Wait wt name timeout w)) = watch_calls w + 2
       \<and> feeds (snd (Wait wt name timeout w)) = tl rest
       \<and> budget \<le> timeout
       \<and> (\<forall>stream2 rest2 budget2 seen2.
             rest = Inr stream2 # rest2
             \<and> consume wt name (Stream_Events stream2) (Stream_Closes stream2) budget seen
                 = StreamBroken budget2 seen2 \<longrightarrow>
             Wait wt name timeout w
               = (Errored streamBrokenError,
                  w\<lparr>feeds := rest2, watch_calls := watch_calls w + 2,
                    opened := opened w + 2, closed := closed w + 2\<rparr>))"
proof -
  let ?sub1 = "freshId (live w)"
  let ?w1 = "w\<lparr>feeds := rest, live := ?sub1 # live w,
               watch_calls := Suc (watch_calls w), opened := Suc (opened w)\<rparr>"
  have first: "Watch name w = (Inr (?sub1, stream1), ?w1)"
    using assms(2) by (simp add: Watch_def)
  have stop1: "Stop ?sub1 ?w1 = w\<lparr>feeds := rest, watch_calls := Suc (watch_calls w),
                 opened := Suc (opened w), closed := Suc (closed w)\<rparr>"
    using freshId_fresh [of "live w"] by (simp add: Stop_def)
  let ?w1' = "w\<lparr>feeds := rest, watch_calls := Suc (watch_calls w),
                 opened := Suc (opened w), closed := Suc (closed w)\<rparr>"
  have run: "Wait wt name timeout w =
      (case Watch name ?w1' of
         (Inl err, w2) \<Rightarrow> (Errored err, w2)
       | (Inr (sub2, stream2), w2) \<Rightarrow>
           (case consume wt name (Stream_Events stream2) (Stream_Closes stream2) budget seen of
              Decided result \<Rightarrow> (result, Stop sub2 w2)
            | DeadlineElapsed seen2 \<Rightarrow> (TimedOut seen2, Stop sub2 w2)
            | StreamBroken budget2 seen2 \<Rightarrow> (Errored streamBrokenError, Stop sub2 w2)))"
    using assms(1) assms(3) by (simp add: Wait_def first stop1)
  have calls: "watch_calls (snd (Wait wt name timeout w)) = watch_calls w + 2
       \<and> feeds (snd (Wait wt name timeout w)) = tl rest"
  proof (cases "Watch name ?w1'")
    case (Pair r2 w2)
    show ?thesis
    proof (cases r2)
      case (Inl err)
      with Pair run Watch_error [of name ?w1' err w2] show ?thesis
        by simp
    next
      case (Inr ss2)
      obtain sub2 stream2 where ss2: "ss2 = (sub2, stream2)"
        by (cases ss2)
      from Pair Inr ss2 Watch_Stop [of name ?w1' sub2 stream2 w2]
      have "watch_calls (Stop sub2 w2) = watch_calls w + 2 \<and> feeds (Stop sub2 w2) = tl rest"
        by auto
      with Pair Inr ss2 run show ?thesis
        by (cases "consume wt name (Stream_Events stream2) (Stream_Closes stream2) budget seen")
           simp_all
    qed
  qed
  have budget: "budget \<le> timeout"
    using assms(3) by (rule consume_budget)
  have twice: "Wait wt name timeout w
               = (Errored streamBrokenError,
                  w\<lparr>feeds := rest2, watch_calls := watch_calls w + 2,
                    opened := opened w + 2, closed := closed w + 2\<rparr>)"
    if "rest = Inr stream2 # rest2"
      and "consume wt name (Stream_Events stream2) (Stream_Closes stream2) budget seen
                 = StreamBroken budget2 seen2"
    for stream2 rest2 budget2 seen2
  proof -
    have "freshId (live ?w1') \<notin> set (live w)"
      using freshId_fresh [of "live w"] by simp
    then show ?thesis
      using that by (simp add: run Watch_def Stop_def)
  qed
  from calls budget twice show ?thesis
    by blast
qed

theorem Wait_resubscribes_once_witness:
  "Wait \<lparr>Waiter_Kind = ''service'', Waiter_Extractor = serviceConditionExtractor\<rparr> ''hello'' 5
     \<lparr>objects = [],
      feeds = [Inr \<lparr>Stream_Events = [(1, \<lparr>Event_Kind = ERROR, Event_Name = '''',
                                         Event_Object = ServiceObj (fake_service '''' ''img:1'' '''')\<rparr>)],
                    Stream_Closes = None\<rparr>,
               Inr \<lparr>Stream_Events = [], Stream_Closes = Some 2\<rparr>,
               Inr \<lparr>Stream_Events = [], Stream_Closes = None\<rparr>],
      live = [], watch_calls = 0, opened = 0, closed = 0\<rparr>
   = (Errored streamBrokenError,
      \<lparr>objects = [], feeds = [Inr \<lparr>Stream_Events = [], Stream_Closes = None\<rparr>],
       live = [], watch_calls = 2, opened = 2, closed = 2\<rparr>)"
proof -
  let ?wt = "\<lparr>Waiter_Kind = ''service'', Waiter_Extractor = serviceConditionExtractor\<rparr>"
  let ?s1 = "\<lparr>Stream_Events = [(1, \<lparr>Event_Kind = ERROR, Event_Name = '''',
                                         Event_Object = ServiceObj (fake_service '''' ''img:1'' '''')\<rparr>)],
                    Stream_Closes = None\<rparr>"
  let ?s2 = "\<lparr>Stream_Events = [], Stream_Closes = Some 2\<rparr>"
  let ?s3 = "\<lparr>Stream_Events = [], Stream_Closes = None\<rparr>"
  let ?w = "\<lparr>objects = [], feeds = [Inr ?s1, Inr ?s2, Inr ?s3],
      live = [], watch_calls = 0, opened = 0, closed = 0\<rparr>"
  have t: "0 < (5::nat)"
    by simp
  have f: "feeds ?w = Inr ?s1 # [Inr ?s2, Inr ?s3]"
    by simp
  have c1: "consume ?wt ''hello'' (Stream_Events ?s1) (Stream_Closes ?s1) 5 None = StreamBroken 4 None"
    by simp
  have c2: "consume ?wt ''hello'' (Stream_Events ?s2) (Stream_Closes ?s2) 4 None = StreamBroken 2 None"
    by simp
  from Wait_resubscribes_once [OF t f c1]
  have "Wait ?wt ''hello'' 5 ?w
               = (Errored streamBrokenError,
                  ?w\<lparr>feeds := [Inr ?s3], watch_calls := watch_calls ?w + 2,
                    opened := opened ?w + 2, closed := closed ?w + 2\<rparr>)"
    using c2 by blast
  then show ?thesis
    by simp
qed

end
